theory Spec2Isabelle
  imports Complex_Main "HOL-Library.AList"
begin

section \<open>The image-resize controller of the Quill module\<close>

text \<open>
  The class \<open>ImageResize\<close> keeps three mutable fields (\<open>img\<close>, \<open>overlay\<close>,
  \<open>modules\<close>) and talks to the browser and to the host editor. The model is explicit
  state passing over a record that holds those fields together with the part of the
  document the controller changes (the listener registry, the overlay elements attached
  to the parent of the editor root) and a log of the calls it makes to the outside, in
  program order. Writes of the field \<open>img\<close> are logged as well, so that their place
  among the calls can be stated.

  Layout measurements and the host's index lookup are read from an environment that is a
  parameter of every operation that measures. JavaScript numbers are taken as reals:
  the arithmetic of the source is exact wherever no rounding happens.

  What is taken from outside. Capability modules are outside code: a hook call on a
  module instance is a log entry, and the hooks of the built-in modules and of a module
  class supplied from outside are taken to exist, to return normally and to leave the
  controller's fields alone. In \<open>showOverlay\<close> the host's lookup of the image's index
  (\<open>quill.getIndex(find(img))\<close>, all of it host code) is taken to return a number.
  Nobody but the controller registers or removes the controller's listeners or detaches
  its overlay.

  The exceptions of the controller's own code are branches of the model: \<open>new\<close> on
  something that is no constructor, a hook call on an object that has no such hook, the
  dereference of a blot the host did not find in \<open>checkImage\<close>, a lookup with no image,
  \<open>removeChild\<close> on a node that is no child, and the unbounded recursion of \<open>onUpdate\<close>
  when the controller is its own module. No handler catches anything: a throw ends the
  handler where it stands.
\<close>

subsection \<open>Data\<close>

text \<open>A DOM node the user can point at: its identity and its \<open>tagName\<close>, if it has one.\<close>

datatype element = Element (node_id: nat) (tagName: "string option")

text \<open>The result of \<open>getBoundingClientRect()\<close>, as far as the source reads it.\<close>

record rect =
  rect_left :: real
  rect_top :: real
  rect_width :: real
  rect_height :: real

text \<open>
  A style value is either some text or the template string \<open>`${x}px`\<close> of a number.
  A style declaration is an association list in insertion order.
\<close>

datatype css = Css string | Px real

type_synonym style = "(string \<times> css) list"

text \<open>
  An entry of \<open>options.modules\<close> is a string or a module class supplied from outside.
  \<open>knownModules\<close> is the object literal \<open>{ DisplaySize, Resize }\<close>; as every object
  literal it inherits the property \<open>constructor\<close>, whose value is the function \<open>Object\<close>.
\<close>

datatype module_class = Named string | External nat

datatype ctor = DisplaySize | Resize | Custom nat | ObjectCtor

text \<open>
  What ends up in \<open>this.modules\<close>: an instance of a module class, or the controller
  itself, which is what \<open>new Object(this)\<close> returns.
\<close>

datatype module = Instance ctor | Controller

datatype emitter = Document | Root | Editor

datatype callback = HandleClick | HandleScroll | CheckImage | TextChange

text \<open>A registered listener: where, event type, listener reference, capture flag.\<close>

datatype listener = Listener emitter string callback bool

datatype overlay_el = Overlay (ov_id: nat) (ov_style: style)

datatype call =
    ExecCommand string
  | AddEventListener emitter string callback bool
  | RemoveEventListener emitter string callback bool
  | On string callback
  | SetSelection nat nat
  | CreateElement nat
  | AssignStyle nat style
  | AppendChild nat
  | RemoveChild nat
  | New ctor
  | OnCreate module
  | OnUpdate module
  | OnDestroy module
  | DeleteAt element nat
  | PreventDefault
  | SetImg "element option"

record state =
  img :: "element option"
  overlay :: "overlay_el option"
  modules :: "module list"
  moduleClasses :: "module_class list"
  overlayStyles :: style
  listeners :: "listener list"
  children :: "nat list"
  next_id :: nat
  trace :: "call list"

text \<open>
  What the controller reads from outside at the time of an event: the layout, the index
  the host gives for an image in \<open>showOverlay\<close>, whether \<open>find\<close> gives a blot for an
  image in \<open>checkImage\<close>, and how many nested calls of \<open>onUpdate\<close> the stack still
  holds.
\<close>

record env =
  imgRect :: "element \<Rightarrow> rect"
  containerRect :: rect
  scrollLeft :: real
  scrollTop :: real
  getIndex :: "element \<Rightarrow> nat"
  hasBlot :: "element \<Rightarrow> bool"
  stackDepth :: nat

text \<open>The event object, as far as the handlers read it.\<close>

record event =
  target :: "element option"
  keyCode :: "nat option"

text \<open>The merged options the constructor stores (the defaults are not part of the sources).\<close>

record options =
  opt_modules :: "module_class list"
  opt_overlayStyles :: style

datatype error = TypeError | NotFoundError | RangeError

text \<open>A call returns with the new state or throws, leaving the state it reached.\<close>

datatype outcome = Returned state | Threw error state

fun state_of :: "outcome \<Rightarrow> state" where
  "state_of (Returned s) = s"
| "state_of (Threw e s) = s"

fun seq :: "outcome \<Rightarrow> (state \<Rightarrow> outcome) \<Rightarrow> outcome" where
  "seq (Returned s) f = f s"
| "seq (Threw e s) f = Threw e s"

definition emit :: "call list \<Rightarrow> state \<Rightarrow> state" where
  "emit cs s = s\<lparr>trace := trace s @ cs\<rparr>"

subsection \<open>The browser's part\<close>

text \<open>
  \<open>addEventListener\<close> ignores a listener that is already registered with the same type,
  reference and capture flag; \<open>removeEventListener\<close> removes the listener with the same
  type, reference and capture flag, and does nothing when there is none.
\<close>

definition add_listener :: "listener \<Rightarrow> listener list \<Rightarrow> listener list" where
  "add_listener l ls = (if l \<in> set ls then ls else ls @ [l])"

definition addEventListener :: "emitter \<Rightarrow> string \<Rightarrow> callback \<Rightarrow> bool \<Rightarrow> state \<Rightarrow> state" where
  "addEventListener em ty cb cap s =
     s\<lparr>listeners := add_listener (Listener em ty cb cap) (listeners s),
       trace := trace s @ [AddEventListener em ty cb cap]\<rparr>"

definition removeEventListener :: "emitter \<Rightarrow> string \<Rightarrow> callback \<Rightarrow> bool \<Rightarrow> state \<Rightarrow> state" where
  "removeEventListener em ty cb cap s =
     s\<lparr>listeners := remove1 (Listener em ty cb cap) (listeners s),
       trace := trace s @ [RemoveEventListener em ty cb cap]\<rparr>"

text \<open>\<open>quill.on(type, handler)\<close>: the editor's emitter appends the handler.\<close>

definition quill_on :: "string \<Rightarrow> callback \<Rightarrow> state \<Rightarrow> state" where
  "quill_on ty cb s =
     s\<lparr>listeners := listeners s @ [Listener Editor ty cb False],
       trace := trace s @ [On ty cb]\<rparr>"

text \<open>\<open>Object.assign(target, source)\<close> on style declarations.\<close>

definition object_assign :: "style \<Rightarrow> style \<Rightarrow> style" where
  "object_assign tgt src = fold (\<lambda>kv. AList.update (fst kv) (snd kv)) src tgt"

text \<open>
  \<open>toUpperCase\<close> on the characters of a tag name. Only the ASCII letters are mapped; no
  other 8-bit character has an upper case among I, M and G.
\<close>

definition upper_char :: "char \<Rightarrow> char" where
  "upper_char c =
     (case map_of (zip ''abcdefghijklmnopqrstuvwxyz'' ''ABCDEFGHIJKLMNOPQRSTUVWXYZ'') c of
        None \<Rightarrow> c
      | Some u \<Rightarrow> u)"

definition toUpperCase :: "string \<Rightarrow> string" where
  "toUpperCase t = map upper_char t"

subsection \<open>The controller\<close>

text \<open>
  The constructor, on a document where nothing is registered yet. The options are the
  merged ones; the write to the parent's \<open>style.position\<close> is not part of the state.
\<close>

definition "constructor" :: "options \<Rightarrow> state" where
  "constructor opts =
     quill_on ''text-change'' TextChange
      (addEventListener Root ''scroll'' HandleScroll False
        (addEventListener Root ''mscontrolselect'' HandleClick False
          (addEventListener Root ''click'' HandleClick False
            \<lparr>img = None, overlay = None, modules = [],
             moduleClasses = opt_modules opts, overlayStyles = opt_overlayStyles opts,
             listeners = [], children = [], next_id = 0,
             trace = [ExecCommand ''enableObjectResizing'']\<rparr>)))"

text \<open>
  \<open>knownModules[ModuleClass] || ModuleClass\<close>: what \<open>new\<close> is applied to, when that is a
  constructor. The two own keys give the built-in classes. The inherited key
  \<open>constructor\<close> gives \<open>Object\<close>, which is a constructor. Every other string gives
  nothing \<open>new\<close> accepts: the other inherited keys (\<open>toString\<close>, \<open>hasOwnProperty\<close>,
  \<open>__proto__\<close> and so on) give built-in methods or the prototype object, neither of
  which can be constructed, and a string that is no key at all is used itself.
\<close>

fun resolve :: "module_class \<Rightarrow> ctor option" where
  "resolve (Named n) =
     (if n = ''DisplaySize'' then Some DisplaySize
      else if n = ''Resize'' then Some Resize
      else if n = ''constructor'' then Some ObjectCtor
      else None)"
| "resolve (External h) = Some (Custom h)"

text \<open>
  \<open>new K(this)\<close>. \<open>new Object(this)\<close> makes nothing: given an object, \<open>Object\<close> returns
  it, so the result is the controller.
\<close>

fun new_module :: "ctor \<Rightarrow> module" where
  "new_module ObjectCtor = Controller"
| "new_module k = Instance k"

text \<open>
  \<open>moduleClasses.map(ModuleClass => new (...)(this))\<close>: the constructors that ran, in
  list order, and the error that stopped the map, if any (\<open>new\<close> throws a TypeError on
  what is no constructor).
\<close>

fun construct_all :: "module_class list \<Rightarrow> ctor list \<times> error option" where
  "construct_all [] = ([], None)"
| "construct_all (c # cs) =
     (case resolve c of
        None \<Rightarrow> ([], Some TypeError)
      | Some k \<Rightarrow> (case construct_all cs of (ks, e) \<Rightarrow> (k # ks, e)))"

text \<open>The object literal that \<open>repositionElements\<close> assigns to the overlay's style.\<close>

definition overlay_box :: "env \<Rightarrow> element \<Rightarrow> style" where
  "overlay_box e i =
     (let imgR = imgRect e i;
          containerR = containerRect e
      in [(''left'', Px (rect_left imgR - rect_left containerR - 1 + scrollLeft e)),
          (''top'', Px (rect_top imgR - rect_top containerR + scrollTop e)),
          (''width'', Px (rect_width imgR)),
          (''height'', Px (rect_height imgR))])"

definition repositionElements :: "env \<Rightarrow> state \<Rightarrow> state" where
  "repositionElements e s =
     (case overlay s of
        None \<Rightarrow> s
      | Some ov \<Rightarrow>
         (case img s of
            None \<Rightarrow> s
          | Some i \<Rightarrow>
             s\<lparr>overlay := Some (Overlay (ov_id ov) (object_assign (ov_style ov) (overlay_box e i))),
               trace := trace s @ [AssignStyle (ov_id ov) (overlay_box e i)]\<rparr>))"

text \<open>
  \<open>modules.forEach(module => module.onCreate())\<close> and the same with \<open>onDestroy\<close>: the
  hook of each instance is called in list order. The controller has neither hook, so
  the call on it throws a TypeError and ends the loop.
\<close>

fun each_hook :: "(module \<Rightarrow> call) \<Rightarrow> module list \<Rightarrow> state \<Rightarrow> outcome" where
  "each_hook h [] s = Returned s"
| "each_hook h (Instance k # ms) s = each_hook h ms (emit [h (Instance k)] s)"
| "each_hook h (Controller # ms) s = Threw TypeError s"

definition removeModules :: "state \<Rightarrow> outcome" where
  "removeModules s =
     seq (each_hook OnDestroy (modules s) s) (\<lambda>s1. Returned (s1\<lparr>modules := []\<rparr>))"

text \<open>
  \<open>modules.forEach(module => module.onUpdate())\<close>. The controller does have a property
  \<open>onUpdate\<close>: the call on it runs \<open>onUpdate\<close> again, which reaches the same entry again.
  The first argument counts the nested calls the stack still holds; when there is none
  left the call throws a RangeError.
\<close>

fun each_update :: "nat \<Rightarrow> env \<Rightarrow> module list \<Rightarrow> state \<Rightarrow> outcome" where
  "each_update d e [] s = Returned s"
| "each_update d e (Instance k # ms) s = each_update d e ms (emit [OnUpdate (Instance k)] s)"
| "each_update 0 e (Controller # ms) s = Threw RangeError s"
| "each_update (Suc d) e (Controller # ms) s =
     (case each_update d e (modules s) (repositionElements e s) of
        Threw er s' \<Rightarrow> Threw er s'
      | Returned s' \<Rightarrow> each_update (Suc d) e ms s')"

definition onUpdate :: "env \<Rightarrow> state \<Rightarrow> outcome" where
  "onUpdate e s =
     (let s1 = repositionElements e s
      in each_update (stackDepth e) e (modules s1) s1)"

definition initializeModules :: "env \<Rightarrow> state \<Rightarrow> outcome" where
  "initializeModules e s =
     seq (removeModules s) (\<lambda>s1.
       case construct_all (moduleClasses s1) of
         (ks, Some err) \<Rightarrow> Threw err (emit (map New ks) s1)
       | (ks, None) \<Rightarrow>
          (let s2 = (emit (map New ks) s1)\<lparr>modules := map new_module ks\<rparr>
           in seq (each_hook OnCreate (modules s2) s2) (onUpdate e)))"

text \<open>\<open>removeChild\<close> throws a NotFoundError when the node is not a child of the parent.\<close>

definition hideOverlay :: "state \<Rightarrow> outcome" where
  "hideOverlay s =
     (case overlay s of
        None \<Rightarrow> Returned s
      | Some ov \<Rightarrow>
         (if ov_id ov \<notin> set (children s) then Threw NotFoundError (emit [RemoveChild (ov_id ov)] s)
          else
            (let s1 = (emit [RemoveChild (ov_id ov)] s)\<lparr>children := remove1 (ov_id ov) (children s)\<rparr>;
                 s2 = s1\<lparr>overlay := None\<rparr>;
                 s3 = removeEventListener Document ''keyup'' CheckImage False s2
             in Returned (removeEventListener Root ''input'' CheckImage False s3))))"

text \<open>
  \<open>showOverlay\<close>. The host finds the blot of the image and its index; with no image the
  lookup dereferences nothing and throws.
\<close>

definition showOverlay :: "env \<Rightarrow> state \<Rightarrow> outcome" where
  "showOverlay e s =
     seq (if overlay s \<noteq> None then hideOverlay s else Returned s) (\<lambda>s1.
       case img s1 of
         None \<Rightarrow> Threw TypeError s1
       | Some i \<Rightarrow>
          (let s2 = emit [SetSelection (getIndex e i) 0] s1;
               s3 = addEventListener Document ''keyup'' CheckImage True s2;
               s4 = addEventListener Root ''input'' CheckImage True s3;
               n = next_id s4;
               s5 = (emit [CreateElement n] s4)\<lparr>overlay := Some (Overlay n []), next_id := Suc n\<rparr>;
               s6 = (emit [AssignStyle n (overlayStyles s5)] s5)
                      \<lparr>overlay := Some (Overlay n (object_assign [] (overlayStyles s5)))\<rparr>;
               s7 = (emit [AppendChild n] s6)\<lparr>children := children s6 @ [n]\<rparr>
           in Returned (repositionElements e s7)))"

definition hide :: "state \<Rightarrow> outcome" where
  "hide s =
     seq (hideOverlay s) (\<lambda>s1.
     seq (removeModules s1) (\<lambda>s2.
       Returned ((emit [SetImg None] s2)\<lparr>img := None\<rparr>)))"

definition "show" :: "env \<Rightarrow> state \<Rightarrow> element \<Rightarrow> outcome" where
  "show e s i =
     seq (showOverlay e ((emit [SetImg (Some i)] s)\<lparr>img := Some i\<rparr>)) (initializeModules e)"

text \<open>
  The test \<open>evt.target && evt.target.tagName && evt.target.tagName.toUpperCase() === 'IMG'\<close>:
  the target when it passes.
\<close>

definition image_target :: "event \<Rightarrow> element option" where
  "image_target evt =
     (case target evt of
        None \<Rightarrow> None
      | Some el \<Rightarrow>
         (case tagName el of
            None \<Rightarrow> None
          | Some t \<Rightarrow> if t \<noteq> [] \<and> toUpperCase t = ''IMG'' then Some el else None))"

definition handleClick :: "env \<Rightarrow> state \<Rightarrow> event \<Rightarrow> outcome" where
  "handleClick e s evt =
     (case image_target evt of
        Some el \<Rightarrow>
          (if img s = Some el then Returned s
           else seq (if img s \<noteq> None then hide s else Returned s) (\<lambda>s1.
                seq (show e s1 el) (\<lambda>s2.
                Returned (emit [PreventDefault] s2))))
      | None \<Rightarrow> (if img s \<noteq> None then hide s else Returned s))"

definition handleScroll :: "state \<Rightarrow> outcome" where
  "handleScroll s = hide s"

text \<open>
  \<open>checkImage\<close>. \<open>evt.keyCode == 46\<close> is false for an event without a key code. For the
  two key codes the result of \<open>find(this.img)\<close> is dereferenced as it comes: when the
  host has no blot for the image (it has removed the image already), \<open>.deleteAt\<close>
  throws a TypeError and \<open>hide\<close> is not reached.
\<close>

definition checkImage :: "env \<Rightarrow> state \<Rightarrow> event \<Rightarrow> outcome" where
  "checkImage e s evt =
     (case img s of
        None \<Rightarrow> Returned s
      | Some i \<Rightarrow>
         (if keyCode evt = Some 46 \<or> keyCode evt = Some 8
          then (if hasBlot e i then hide (emit [DeleteAt i 0] s) else Threw TypeError s)
          else hide s))"

subsection \<open>Events reaching the controller\<close>

text \<open>
  What the browser and the editor deliver: a click or \<open>mscontrolselect\<close> inside the
  editor root, a scroll of the root, a key released anywhere in the document, an input
  event at the root, a \<open>text-change\<close> of the editor. Each is delivered to the listeners
  registered for it, in registration order; an exception of a listener ends that
  listener and is reported by the browser, the state it reached stays.
\<close>

datatype signal =
    Click element
  | MsControlSelect element
  | Scroll
  | KeyUp nat
  | Input
  | TextChanged

fun signal_emitter :: "signal \<Rightarrow> emitter" where
  "signal_emitter (Click el) = Root"
| "signal_emitter (MsControlSelect el) = Root"
| "signal_emitter Scroll = Root"
| "signal_emitter (KeyUp k) = Document"
| "signal_emitter Input = Root"
| "signal_emitter TextChanged = Editor"

fun signal_type :: "signal \<Rightarrow> string" where
  "signal_type (Click el) = ''click''"
| "signal_type (MsControlSelect el) = ''mscontrolselect''"
| "signal_type Scroll = ''scroll''"
| "signal_type (KeyUp k) = ''keyup''"
| "signal_type Input = ''input''"
| "signal_type TextChanged = ''text-change''"

fun signal_event :: "signal \<Rightarrow> event" where
  "signal_event (Click el) = \<lparr>target = Some el, keyCode = None\<rparr>"
| "signal_event (MsControlSelect el) = \<lparr>target = Some el, keyCode = None\<rparr>"
| "signal_event Scroll = \<lparr>target = None, keyCode = None\<rparr>"
| "signal_event (KeyUp k) = \<lparr>target = None, keyCode = Some k\<rparr>"
| "signal_event Input = \<lparr>target = None, keyCode = None\<rparr>"
| "signal_event TextChanged = \<lparr>target = None, keyCode = None\<rparr>"

fun callbacks :: "emitter \<Rightarrow> string \<Rightarrow> listener list \<Rightarrow> callback list" where
  "callbacks em ty [] = []"
| "callbacks em ty (Listener em' ty' cb cap # ls) =
     (if em' = em \<and> ty' = ty then cb # callbacks em ty ls else callbacks em ty ls)"

fun run :: "env \<Rightarrow> callback \<Rightarrow> event \<Rightarrow> state \<Rightarrow> outcome" where
  "run e HandleClick evt s = handleClick e s evt"
| "run e HandleScroll evt s = handleScroll s"
| "run e CheckImage evt s = checkImage e s evt"
| "run e TextChange evt s = Returned (repositionElements e s)"

definition dispatch :: "env \<Rightarrow> state \<Rightarrow> signal \<Rightarrow> state" where
  "dispatch e s sg =
     foldl (\<lambda>s' cb. state_of (run e cb (signal_event sg) s')) s
       (callbacks (signal_emitter sg) (signal_type sg) (listeners s))"

text \<open>The states the controller can be in: after construction, and after any event.\<close>

inductive reachable :: "state \<Rightarrow> bool" where
  init: "reachable (constructor opts)"
| step: "reachable s \<Longrightarrow> reachable (dispatch e s sg)"

subsection \<open>What holds in every reachable state\<close>

definition base_listeners :: "listener list" where
  "base_listeners =
     [Listener Root ''click'' HandleClick False,
      Listener Root ''mscontrolselect'' HandleClick False,
      Listener Root ''scroll'' HandleScroll False,
      Listener Editor ''text-change'' TextChange False]"

definition check_listeners :: "listener list" where
  "check_listeners =
     [Listener Document ''keyup'' CheckImage True,
      Listener Root ''input'' CheckImage True]"

text \<open>
  An overlay exists only while an image is active and is then the one overlay element
  attached to the parent, allocated before the next free identity. An active image
  without an overlay is what a teardown leaves that threw in \<open>removeModules\<close>: then the
  controller is among its own modules. With no image there are no modules. The
  listeners are those of the constructor, with those of \<open>showOverlay\<close> after them once
  an image has been shown, and certainly while one is active.
\<close>

definition consistent :: "state \<Rightarrow> bool" where
  "consistent s =
     ((overlay s \<noteq> None \<longrightarrow> img s \<noteq> None)
      \<and> (img s \<noteq> None \<longrightarrow> overlay s = None \<longrightarrow> Controller \<in> set (modules s))
      \<and> children s = (case overlay s of None \<Rightarrow> [] | Some ov \<Rightarrow> [ov_id ov])
      \<and> list_all (\<lambda>n. n < next_id s) (children s)
      \<and> (img s = None \<longrightarrow> modules s = [])
      \<and> (img s \<noteq> None \<longrightarrow> listeners s = base_listeners @ check_listeners)
      \<and> (listeners s = base_listeners \<or> listeners s = base_listeners @ check_listeners))"

subsection \<open>Reading the log\<close>

fun is_OnDestroy :: "call \<Rightarrow> bool" where
  "is_OnDestroy (OnDestroy m) = True"
| "is_OnDestroy c = False"

fun is_OnUpdate :: "call \<Rightarrow> bool" where
  "is_OnUpdate (OnUpdate m) = True"
| "is_OnUpdate c = False"

fun is_RemoveChild :: "call \<Rightarrow> bool" where
  "is_RemoveChild (RemoveChild n) = True"
| "is_RemoveChild c = False"

text \<open>Every call of the first kind comes before every call of the second kind.\<close>

fun all_before :: "(call \<Rightarrow> bool) \<Rightarrow> (call \<Rightarrow> bool) \<Rightarrow> call list \<Rightarrow> bool" where
  "all_before P Q [] = True"
| "all_before P Q (c # cs) = ((\<not> Q c \<or> \<not> list_ex P cs) \<and> all_before P Q cs)"

text \<open>The modules a \<open>forEach\<close> over hooks reaches before it stops at the controller.\<close>

definition hooked :: "module list \<Rightarrow> module list" where
  "hooked ms = takeWhile (\<lambda>m. m \<noteq> Controller) ms"

text \<open>The calls a step added to the log.\<close>

definition new_calls :: "state \<Rightarrow> state \<Rightarrow> call list" where
  "new_calls s s' = drop (length (trace s)) (trace s')"

text \<open>
  What \<open>repositionElements\<close> adds to the log: one style assignment when there is an
  overlay and an image, nothing otherwise.
\<close>

definition reposition_calls :: "env \<Rightarrow> state \<Rightarrow> call list" where
  "reposition_calls e s =
     (case overlay s of
        None \<Rightarrow> []
      | Some ov \<Rightarrow>
         (case img s of
            None \<Rightarrow> []
          | Some i \<Rightarrow> [AssignStyle (ov_id ov) (overlay_box e i)]))"

text \<open>
  What \<open>hideOverlay\<close> adds to the log: the removal of the overlay and the two
  \<open>removeEventListener\<close> calls when there is an overlay, nothing otherwise.
\<close>

definition removal_calls :: "state \<Rightarrow> call list" where
  "removal_calls s =
     (case overlay s of
        None \<Rightarrow> []
      | Some ov \<Rightarrow>
         [RemoveChild (ov_id ov),
          RemoveEventListener Document ''keyup'' CheckImage False,
          RemoveEventListener Root ''input'' CheckImage False])"

subsection \<open>Example inputs\<close>

text \<open>
  The measurements of the geometry example: image box 110, 40, 200, 150; container at
  100, 20; scrolled by 5, 0. Two images, a paragraph, and the two built-in modules.
\<close>

definition env0 :: env where
  "env0 = \<lparr>imgRect = (\<lambda>i. \<lparr>rect_left = 110, rect_top = 40, rect_width = 200, rect_height = 150\<rparr>),
           containerRect = \<lparr>rect_left = 100, rect_top = 20, rect_width = 640, rect_height = 480\<rparr>,
           scrollLeft = 5, scrollTop = 0, getIndex = (\<lambda>i. node_id i),
           hasBlot = (\<lambda>i. True), stackDepth = 1000\<rparr>"

text \<open>The same after the host has removed the image from the document.\<close>

definition env_gone :: env where
  "env_gone = env0\<lparr>hasBlot := (\<lambda>i. False)\<rparr>"

definition opts0 :: options where
  "opts0 = \<lparr>opt_modules = [Named ''DisplaySize'', Named ''Resize''],
            opt_overlayStyles = [(''position'', Css ''absolute'')]\<rparr>"

definition imgA :: element where
  "imgA = Element 1 (Some ''IMG'')"

definition imgB :: element where
  "imgB = Element 2 (Some ''img'')"

definition par0 :: element where
  "par0 = Element 3 (Some ''P'')"

text \<open>The state after construction and a click on the first image.\<close>

definition sel0 :: state where
  "sel0 = dispatch env0 (constructor opts0) (Click imgA)"

text \<open>
  A configuration whose second entry names no known module, and the state after
  construction with it and a click on the first image (the click ends in a TypeError).
\<close>

definition opts1 :: options where
  "opts1 = \<lparr>opt_modules = [Named ''Resize'', Named ''Crop''],
            opt_overlayStyles = [(''position'', Css ''absolute'')]\<rparr>"

definition sel1 :: state where
  "sel1 = dispatch env0 (constructor opts1) (Click imgA)"

text \<open>
  A configuration whose second entry is the string \<open>constructor\<close>, and the state after
  construction with it and a click on the first image (the click ends in a TypeError, at
  the \<open>onCreate\<close> call on the controller).
\<close>

definition optsC :: options where
  "optsC = \<lparr>opt_modules = [Named ''Resize'', Named ''constructor''],
            opt_overlayStyles = [(''position'', Css ''absolute'')]\<rparr>"

definition selC :: state where
  "selC = dispatch env0 (constructor optsC) (Click imgA)"

text \<open>The state after a further click on a paragraph: the teardown throws.\<close>

definition stuckC :: state where
  "stuckC = dispatch env0 selC (Click par0)"

section \<open>Proofs\<close>

subsection \<open>The loops over the modules\<close>

lemma each_hook_ok:
  "Controller \<notin> set ms \<Longrightarrow> each_hook h ms s = Returned (emit (map h ms) s)"
proof (induction ms arbitrary: s)
  case Nil
  show ?case by (simp add: emit_def)
next
  case (Cons m ms)
  then show ?case by (cases m) (simp_all add: emit_def)
qed

lemma each_hook_fail:
  "Controller \<in> set ms \<Longrightarrow> each_hook h ms s = Threw TypeError (emit (map h (hooked ms)) s)"
proof (induction ms arbitrary: s)
  case Nil
  then show ?case by simp
next
  case (Cons m ms)
  show ?case
  proof (cases m)
    case (Instance k)
    with Cons show ?thesis by (simp add: emit_def hooked_def)
  next
    case Controller
    then show ?thesis by (simp add: emit_def hooked_def)
  qed
qed

lemma each_update_ok:
  "Controller \<notin> set ms \<Longrightarrow> each_update d e ms s = Returned (emit (map OnUpdate ms) s)"
proof (induction ms arbitrary: s)
  case Nil
  show ?case by (simp add: emit_def)
next
  case (Cons m ms)
  then show ?case by (cases m) (simp_all add: emit_def)
qed

lemma hooked_all: "Controller \<notin> set ms \<Longrightarrow> hooked ms = ms"
  by (auto simp add: hooked_def)

lemma removeModules_ok:
  assumes "Controller \<notin> set (modules s)"
  shows "removeModules s = Returned (s\<lparr>modules := [], trace := trace s @ map OnDestroy (modules s)\<rparr>)"
  using assms by (simp add: removeModules_def each_hook_ok emit_def)

lemma removeModules_fail:
  assumes "Controller \<in> set (modules s)"
  shows "removeModules s = Threw TypeError (s\<lparr>trace := trace s @ map OnDestroy (hooked (modules s))\<rparr>)"
  using assms by (simp add: removeModules_def each_hook_fail emit_def)

lemma new_module_instances:
  "ObjectCtor \<notin> set ks \<Longrightarrow> map new_module ks = map Instance ks"
proof (induction ks)
  case Nil
  show ?case by simp
next
  case (Cons k ks)
  then show ?case by (cases k) simp_all
qed

lemma Controller_new_module:
  "Controller \<in> set (map new_module ks) \<longleftrightarrow> ObjectCtor \<in> set ks"
proof (induction ks)
  case Nil
  show ?case by simp
next
  case (Cons k ks)
  then show ?case by (cases k) simp_all
qed

subsection \<open>The invariant\<close>

lemma consistent_constructor: "consistent (constructor opts)"
  by (simp add: consistent_def constructor_def quill_on_def addEventListener_def add_listener_def
      base_listeners_def)

lemma consistent_emit [simp]: "consistent (emit cs s) = consistent s"
  by (simp add: consistent_def emit_def)

lemma consistent_trace [simp]: "consistent (s\<lparr>trace := tr\<rparr>) = consistent s"
  by (simp add: consistent_def)

lemma hideOverlay_selected:
  assumes "consistent s" "overlay s = Some ov"
  shows "hideOverlay s = Returned (s\<lparr>overlay := None, children := [],
            trace := trace s @ [RemoveChild (ov_id ov),
                                RemoveEventListener Document ''keyup'' CheckImage False,
                                RemoveEventListener Root ''input'' CheckImage False]\<rparr>)"
  using assms
  by (simp add: consistent_def hideOverlay_def emit_def
      removeEventListener_def Let_def base_listeners_def check_listeners_def)

lemma hideOverlay_none:
  assumes "overlay s = None"
  shows "hideOverlay s = Returned s"
  using assms by (simp add: hideOverlay_def)

lemma hide_selected:
  assumes "consistent s" "img s = Some i" "overlay s = Some ov" "Controller \<notin> set (modules s)"
  shows "hide s = Returned (s\<lparr>img := None, overlay := None, modules := [], children := [],
            trace := trace s @ [RemoveChild (ov_id ov),
                                RemoveEventListener Document ''keyup'' CheckImage False,
                                RemoveEventListener Root ''input'' CheckImage False]
                             @ map OnDestroy (modules s) @ [SetImg None]\<rparr>)"
  using assms(4)
  by (simp add: hide_def hideOverlay_selected [OF assms(1,3)] removeModules_ok emit_def)

lemma hide_selected_fail:
  assumes "consistent s" "overlay s = Some ov" "Controller \<in> set (modules s)"
  shows "hide s = Threw TypeError (s\<lparr>overlay := None, children := [],
            trace := trace s @ [RemoveChild (ov_id ov),
                                RemoveEventListener Document ''keyup'' CheckImage False,
                                RemoveEventListener Root ''input'' CheckImage False]
                             @ map OnDestroy (hooked (modules s))\<rparr>)"
  using assms(3)
  by (simp add: hide_def hideOverlay_selected [OF assms(1,2)] removeModules_fail)

lemma hide_stuck:
  assumes "overlay s = None" "Controller \<in> set (modules s)"
  shows "hide s = Threw TypeError (s\<lparr>trace := trace s @ map OnDestroy (hooked (modules s))\<rparr>)"
  using assms by (simp add: hide_def hideOverlay_none removeModules_fail)

lemma hide_idle:
  assumes "consistent s" "img s = None"
  shows "hide s = Returned (s\<lparr>trace := trace s @ [SetImg None]\<rparr>)"
proof -
  from assms have o: "overlay s = None" and m: "modules s = []" by (auto simp: consistent_def)
  from m have "removeModules s = Returned s" by (simp add: removeModules_def)
  with o m show ?thesis using assms(2) by (simp add: hide_def hideOverlay_none emit_def)
qed

lemma selected_overlay:
  assumes "consistent s" "img s = Some i" "Controller \<notin> set (modules s)"
  obtains ov where "overlay s = Some ov" "children s = [ov_id ov]"
  using assms by (auto simp: consistent_def)

lemma consistent_hide:
  assumes "consistent s"
  shows "consistent (state_of (hide s))"
proof (cases "overlay s")
  case None
  show ?thesis
  proof (cases "Controller \<in> set (modules s)")
    case True
    with None assms show ?thesis by (simp add: hide_stuck)
  next
    case False
    with None assms have "img s = None" by (auto simp: consistent_def)
    with assms show ?thesis by (simp add: hide_idle)
  qed
next
  case (Some ov)
  with assms obtain i where i: "img s = Some i" by (auto simp: consistent_def)
  show ?thesis
  proof (cases "Controller \<in> set (modules s)")
    case True
    from assms i True show ?thesis
      by (simp add: hide_selected_fail [OF assms Some True]) (auto simp: consistent_def)
  next
    case False
    from assms i show ?thesis
      by (simp add: hide_selected [OF assms i Some False]) (auto simp: consistent_def)
  qed
qed

lemma hide_returned:
  assumes "consistent s" "hide s = Returned s'"
  shows "consistent s'" and "img s' = None" and "overlay s' = None" and "modules s' = []"
    and "moduleClasses s' = moduleClasses s"
proof -
  have "consistent s' \<and> img s' = None \<and> overlay s' = None \<and> modules s' = []
        \<and> moduleClasses s' = moduleClasses s"
  proof (cases "overlay s")
    case None
    show ?thesis
    proof (cases "Controller \<in> set (modules s)")
      case True
      with None assms show ?thesis by (simp add: hide_stuck)
    next
      case False
      with None assms have i: "img s = None" by (auto simp: consistent_def)
      with assms have "s' = s\<lparr>trace := trace s @ [SetImg None]\<rparr>" by (simp add: hide_idle)
      with assms(1) i None show ?thesis by (auto simp: consistent_def)
    qed
  next
    case (Some ov)
    with assms obtain i where i: "img s = Some i" by (auto simp: consistent_def)
    show ?thesis
    proof (cases "Controller \<in> set (modules s)")
      case True
      from assms(2) show ?thesis by (simp add: hide_selected_fail [OF assms(1) Some True])
    next
      case False
      from assms(2) have "s' = s\<lparr>img := None, overlay := None, modules := [], children := [],
            trace := trace s @ [RemoveChild (ov_id ov),
                                RemoveEventListener Document ''keyup'' CheckImage False,
                                RemoveEventListener Root ''input'' CheckImage False]
                             @ map OnDestroy (modules s) @ [SetImg None]\<rparr>"
        by (simp add: hide_selected [OF assms(1) i Some False])
      with assms(1) show ?thesis by (auto simp: consistent_def)
    qed
  qed
  then show "consistent s'" and "img s' = None" and "overlay s' = None" and "modules s' = []"
    and "moduleClasses s' = moduleClasses s" by simp_all
qed

lemma consistent_reposition: "consistent s \<Longrightarrow> consistent (repositionElements e s)"
  by (auto simp: consistent_def repositionElements_def split: option.splits)

lemma repositionElements_selected:
  assumes "overlay s = Some ov" "img s = Some i"
  shows "repositionElements e s = s\<lparr>
           overlay := Some (Overlay (ov_id ov) (object_assign (ov_style ov) (overlay_box e i))),
           trace := trace s @ [AssignStyle (ov_id ov) (overlay_box e i)]\<rparr>"
  using assms by (simp add: repositionElements_def)

lemma repositionElements_idle:
  assumes "img s = None \<or> overlay s = None"
  shows "repositionElements e s = s"
  using assms by (auto simp: repositionElements_def split: option.splits)

lemma trace_repositionElements:
  "trace (repositionElements e s) = trace s @ reposition_calls e s"
  by (simp add: repositionElements_def reposition_calls_def split: option.splits)

lemma modules_repositionElements [simp]: "modules (repositionElements e s) = modules s"
  by (simp add: repositionElements_def split: option.splits)

lemma map_of_assign_box:
  "map_of (object_assign st [(''left'', l), (''top'', t), (''width'', w), (''height'', h)])
     = (map_of st)(''left'' \<mapsto> l, ''top'' \<mapsto> t, ''width'' \<mapsto> w, ''height'' \<mapsto> h)"
  by (simp add: object_assign_def update_conv')

lemma Controller_Instance [simp]: "Controller \<notin> Instance ` A"
  by auto

lemma onUpdate_ok:
  assumes "Controller \<notin> set (modules s)"
  shows "onUpdate e s = Returned (emit (map OnUpdate (modules s)) (repositionElements e s))"
  using assms by (simp add: onUpdate_def Let_def each_update_ok)

lemma onUpdate_selected:
  assumes "overlay s = Some ov" "img s = Some i" "Controller \<notin> set (modules s)"
  shows "onUpdate e s = Returned (s\<lparr>
           overlay := Some (Overlay (ov_id ov) (object_assign (ov_style ov) (overlay_box e i))),
           trace := trace s @ [AssignStyle (ov_id ov) (overlay_box e i)] @ map OnUpdate (modules s)\<rparr>)"
  using assms by (simp add: onUpdate_ok repositionElements_selected [OF assms(1,2)] emit_def)

lemma showOverlay_fresh:
  assumes "overlay s = None" "img s = Some i"
  shows "showOverlay e s = Returned (s\<lparr>
           overlay := Some (Overlay (next_id s)
                        (object_assign (object_assign [] (overlayStyles s)) (overlay_box e i))),
           listeners := add_listener (Listener Root ''input'' CheckImage True)
                          (add_listener (Listener Document ''keyup'' CheckImage True) (listeners s)),
           children := children s @ [next_id s],
           next_id := Suc (next_id s),
           trace := trace s @ [SetSelection (getIndex e i) 0,
                               AddEventListener Document ''keyup'' CheckImage True,
                               AddEventListener Root ''input'' CheckImage True,
                               CreateElement (next_id s),
                               AssignStyle (next_id s) (overlayStyles s),
                               AppendChild (next_id s),
                               AssignStyle (next_id s) (overlay_box e i)]\<rparr>)"
  using assms
  by (simp add: showOverlay_def emit_def addEventListener_def repositionElements_def Let_def)

lemma initializeModules_ok:
  assumes "construct_all (moduleClasses s) = (ks, None)" "ObjectCtor \<notin> set ks"
    "Controller \<notin> set (modules s)"
  shows "initializeModules e s =
           onUpdate e (s\<lparr>modules := map Instance ks,
             trace := trace s @ map OnDestroy (modules s) @ map New ks
                      @ map OnCreate (map Instance ks)\<rparr>)"
  using assms
  by (simp add: initializeModules_def removeModules_ok emit_def Let_def new_module_instances
      each_hook_ok)

lemma initializeModules_nohook:
  assumes "construct_all (moduleClasses s) = (ks, None)" "ObjectCtor \<in> set ks"
    "Controller \<notin> set (modules s)"
  shows "initializeModules e s =
           Threw TypeError (s\<lparr>modules := map new_module ks,
             trace := trace s @ map OnDestroy (modules s) @ map New ks
                      @ map OnCreate (hooked (map new_module ks))\<rparr>)"
proof -
  from assms(2) have c: "Controller \<in> set (map new_module ks)" by (simp only: Controller_new_module)
  show ?thesis
    using assms(1,3)
    by (simp add: initializeModules_def removeModules_ok emit_def Let_def each_hook_fail [OF c])
qed

lemma initializeModules_fail:
  assumes "construct_all (moduleClasses s) = (ks, Some er)" "Controller \<notin> set (modules s)"
  shows "initializeModules e s =
           Threw er (s\<lparr>modules := [],
             trace := trace s @ map OnDestroy (modules s) @ map New ks\<rparr>)"
  using assms
  by (simp add: initializeModules_def removeModules_ok emit_def Let_def)

lemma add_check_listeners:
  assumes "ls = base_listeners \<or> ls = base_listeners @ check_listeners"
  shows "add_listener (Listener Root ''input'' CheckImage True)
           (add_listener (Listener Document ''keyup'' CheckImage True) ls)
         = base_listeners @ check_listeners"
  using assms by (auto simp: add_listener_def base_listeners_def check_listeners_def)

lemma show_fresh_ok:
  assumes "overlay s = None" "construct_all (moduleClasses s) = (ks, None)"
    "ObjectCtor \<notin> set ks" "Controller \<notin> set (modules s)"
  shows "show e s i = Returned (s\<lparr>
           img := Some i,
           overlay := Some (Overlay (next_id s)
                        (object_assign (object_assign (object_assign [] (overlayStyles s))
                           (overlay_box e i)) (overlay_box e i))),
           modules := map Instance ks,
           listeners := add_listener (Listener Root ''input'' CheckImage True)
                          (add_listener (Listener Document ''keyup'' CheckImage True) (listeners s)),
           children := children s @ [next_id s],
           next_id := Suc (next_id s),
           trace := trace s @ [SetImg (Some i),
                               SetSelection (getIndex e i) 0,
                               AddEventListener Document ''keyup'' CheckImage True,
                               AddEventListener Root ''input'' CheckImage True,
                               CreateElement (next_id s),
                               AssignStyle (next_id s) (overlayStyles s),
                               AppendChild (next_id s),
                               AssignStyle (next_id s) (overlay_box e i)]
                            @ map OnDestroy (modules s) @ map New ks
                            @ map OnCreate (map Instance ks)
                            @ [AssignStyle (next_id s) (overlay_box e i)]
                            @ map OnUpdate (map Instance ks)\<rparr>)"
  using assms
  by (simp add: show_def showOverlay_fresh [where i = i] emit_def
      initializeModules_ok [where ks = ks] onUpdate_selected [where i = i])

lemma show_fresh_nohook:
  assumes "overlay s = None" "construct_all (moduleClasses s) = (ks, None)"
    "ObjectCtor \<in> set ks" "Controller \<notin> set (modules s)"
  shows "show e s i = Threw TypeError (s\<lparr>
           img := Some i,
           overlay := Some (Overlay (next_id s)
                        (object_assign (object_assign [] (overlayStyles s)) (overlay_box e i))),
           modules := map new_module ks,
           listeners := add_listener (Listener Root ''input'' CheckImage True)
                          (add_listener (Listener Document ''keyup'' CheckImage True) (listeners s)),
           children := children s @ [next_id s],
           next_id := Suc (next_id s),
           trace := trace s @ [SetImg (Some i),
                               SetSelection (getIndex e i) 0,
                               AddEventListener Document ''keyup'' CheckImage True,
                               AddEventListener Root ''input'' CheckImage True,
                               CreateElement (next_id s),
                               AssignStyle (next_id s) (overlayStyles s),
                               AppendChild (next_id s),
                               AssignStyle (next_id s) (overlay_box e i)]
                            @ map OnDestroy (modules s) @ map New ks
                            @ map OnCreate (hooked (map new_module ks))\<rparr>)"
  using assms
  by (simp add: show_def showOverlay_fresh [where i = i] emit_def
      initializeModules_nohook [where ks = ks])

lemma show_fresh_fail:
  assumes "overlay s = None" "construct_all (moduleClasses s) = (ks, Some er)"
    "Controller \<notin> set (modules s)"
  shows "show e s i = Threw er (s\<lparr>
           img := Some i,
           overlay := Some (Overlay (next_id s)
                        (object_assign (object_assign [] (overlayStyles s)) (overlay_box e i))),
           modules := [],
           listeners := add_listener (Listener Root ''input'' CheckImage True)
                          (add_listener (Listener Document ''keyup'' CheckImage True) (listeners s)),
           children := children s @ [next_id s],
           next_id := Suc (next_id s),
           trace := trace s @ [SetImg (Some i),
                               SetSelection (getIndex e i) 0,
                               AddEventListener Document ''keyup'' CheckImage True,
                               AddEventListener Root ''input'' CheckImage True,
                               CreateElement (next_id s),
                               AssignStyle (next_id s) (overlayStyles s),
                               AppendChild (next_id s),
                               AssignStyle (next_id s) (overlay_box e i)]
                            @ map OnDestroy (modules s) @ map New ks\<rparr>)"
  using assms
  by (simp add: show_def showOverlay_fresh [where i = i] emit_def
      initializeModules_fail [where ks = ks and er = er])

lemma show_idle:
  assumes "consistent s" "img s = None"
  shows "consistent (state_of (show e s i))" and "img (state_of (show e s i)) = Some i"
    and "overlay (state_of (show e s i)) \<noteq> None"
proof -
  from assms have ov: "overlay s = None" and ch: "children s = []" and m: "modules s = []"
    by (auto simp: consistent_def)
  from assms have ls: "listeners s = base_listeners \<or> listeners s = base_listeners @ check_listeners"
    by (simp add: consistent_def)
  from m have nc: "Controller \<notin> set (modules s)" by simp
  obtain ks er where c: "construct_all (moduleClasses s) = (ks, er)"
    by (cases "construct_all (moduleClasses s)")
  have "consistent (state_of (show e s i)) \<and> img (state_of (show e s i)) = Some i
        \<and> overlay (state_of (show e s i)) \<noteq> None"
  proof (cases er)
    case (Some err)
    with c have c': "construct_all (moduleClasses s) = (ks, Some err)" by simp
    show ?thesis
      using ch m add_check_listeners [OF ls]
      by (simp add: show_fresh_fail [OF ov c' nc]) (simp add: consistent_def)
  next
    case None
    with c have c': "construct_all (moduleClasses s) = (ks, None)" by simp
    show ?thesis
    proof (cases "ObjectCtor \<in> set ks")
      case True
      show ?thesis
        using ch m add_check_listeners [OF ls]
        by (simp add: show_fresh_nohook [OF ov c' True nc]) (simp add: consistent_def)
    next
      case False
      show ?thesis
        using ch m add_check_listeners [OF ls]
        by (simp add: show_fresh_ok [OF ov c' False nc]) (simp add: consistent_def)
    qed
  qed
  then show "consistent (state_of (show e s i))" and "img (state_of (show e s i)) = Some i"
    and "overlay (state_of (show e s i)) \<noteq> None" by simp_all
qed

lemma consistent_handleClick:
  assumes "consistent s"
  shows "consistent (state_of (handleClick e s evt))"
proof (cases "image_target evt")
  case None
  with assms consistent_hide [OF assms] show ?thesis
    by (simp add: handleClick_def)
next
  case (Some el)
  show ?thesis
  proof (cases "img s = Some el")
    case True
    with Some assms show ?thesis by (simp add: handleClick_def)
  next
    case False
    show ?thesis
    proof (cases "img s")
      case None
      from show_idle(1) [OF assms None, of e el] Some False None show ?thesis
        by (cases "show e s el") (simp_all add: handleClick_def)
    next
      case (Some a) note a = this
      show ?thesis
      proof (cases "hide s")
        case (Threw er s')
        with consistent_hide [OF assms] \<open>image_target evt = Some el\<close> False a show ?thesis
          by (simp add: handleClick_def)
      next
        case (Returned s1)
        from hide_returned(1,2) [OF assms Returned]
        have c1: "consistent s1" and i1: "img s1 = None" .
        from show_idle(1) [OF c1 i1, of e el] \<open>image_target evt = Some el\<close> False a Returned
        show ?thesis
          by (cases "show e s1 el") (simp_all add: handleClick_def)
      qed
    qed
  qed
qed

lemma consistent_checkImage:
  assumes "consistent s"
  shows "consistent (state_of (checkImage e s evt))"
proof (cases "img s")
  case None
  with assms show ?thesis by (simp add: checkImage_def)
next
  case (Some i)
  have "consistent (emit [DeleteAt i 0] s)" using assms by simp
  from consistent_hide [OF this] consistent_hide [OF assms] assms Some show ?thesis
    by (simp add: checkImage_def)
qed

lemma consistent_run:
  assumes "consistent s"
  shows "consistent (state_of (run e cb evt s))"
  using assms consistent_handleClick consistent_checkImage consistent_hide consistent_reposition
  by (cases cb) (simp_all add: handleScroll_def)

lemma consistent_foldl_run:
  assumes "consistent s"
  shows "consistent (foldl (\<lambda>s' cb. state_of (run e cb evt s')) s cbs)"
  using assms by (induction cbs arbitrary: s) (simp_all add: consistent_run)

lemma reachable_consistent: "reachable s \<Longrightarrow> consistent s"
proof (induction rule: reachable.induct)
  case (init opts)
  show ?case by (rule consistent_constructor)
next
  case (step s e sg)
  then show ?case by (simp add: dispatch_def consistent_foldl_run)
qed

lemma construct_all_ok:
  "construct_all cs = (ks, None) \<longleftrightarrow> map resolve cs = map Some ks"
proof (induction cs arbitrary: ks)
  case Nil
  show ?case by auto
next
  case (Cons c cs)
  show ?case
  proof (cases "resolve c")
    case None
    then show ?thesis by (cases ks) auto
  next
    case (Some k)
    obtain ks' er where r: "construct_all cs = (ks', er)" by (cases "construct_all cs")
    show ?thesis
    proof (cases ks)
      case Nil
      with Some r show ?thesis by simp
    next
      case (Cons k' ks'')
      with Some r Cons.IH [of ks''] show ?thesis by auto
    qed
  qed
qed

lemma hideOverlay_attached:
  assumes "overlay s = Some ov" "ov_id ov \<in> set (children s)"
  shows "hideOverlay s = Returned (s\<lparr>
           overlay := None,
           listeners := remove1 (Listener Root ''input'' CheckImage False)
                          (remove1 (Listener Document ''keyup'' CheckImage False) (listeners s)),
           children := remove1 (ov_id ov) (children s),
           trace := trace s @ [RemoveChild (ov_id ov),
                               RemoveEventListener Document ''keyup'' CheckImage False,
                               RemoveEventListener Root ''input'' CheckImage False]\<rparr>)"
  using assms by (simp add: hideOverlay_def emit_def removeEventListener_def Let_def)

lemma showOverlay_replace:
  assumes "img s = Some i" "overlay s = Some ov" "ov_id ov \<in> set (children s)"
  shows "showOverlay e s = Returned (s\<lparr>
           overlay := Some (Overlay (next_id s)
                        (object_assign (object_assign [] (overlayStyles s)) (overlay_box e i))),
           listeners := add_listener (Listener Root ''input'' CheckImage True)
                          (add_listener (Listener Document ''keyup'' CheckImage True)
                            (remove1 (Listener Root ''input'' CheckImage False)
                              (remove1 (Listener Document ''keyup'' CheckImage False) (listeners s)))),
           children := remove1 (ov_id ov) (children s) @ [next_id s],
           next_id := Suc (next_id s),
           trace := trace s @ [RemoveChild (ov_id ov),
                               RemoveEventListener Document ''keyup'' CheckImage False,
                               RemoveEventListener Root ''input'' CheckImage False,
                               SetSelection (getIndex e i) 0,
                               AddEventListener Document ''keyup'' CheckImage True,
                               AddEventListener Root ''input'' CheckImage True,
                               CreateElement (next_id s),
                               AssignStyle (next_id s) (overlayStyles s),
                               AppendChild (next_id s),
                               AssignStyle (next_id s) (overlay_box e i)]\<rparr>)"
proof -
  let ?s1 = "s\<lparr>
           overlay := None,
           listeners := remove1 (Listener Root ''input'' CheckImage False)
                          (remove1 (Listener Document ''keyup'' CheckImage False) (listeners s)),
           children := remove1 (ov_id ov) (children s),
           trace := trace s @ [RemoveChild (ov_id ov),
                               RemoveEventListener Document ''keyup'' CheckImage False,
                               RemoveEventListener Root ''input'' CheckImage False]\<rparr>"
  have "showOverlay e s = showOverlay e ?s1"
    using assms(2) by (simp add: showOverlay_def [of e s] hideOverlay_attached [OF assms(2,3)])
       (simp add: showOverlay_def)
  also have "\<dots> = Returned (?s1\<lparr>
           overlay := Some (Overlay (next_id ?s1)
                        (object_assign (object_assign [] (overlayStyles ?s1)) (overlay_box e i))),
           listeners := add_listener (Listener Root ''input'' CheckImage True)
                          (add_listener (Listener Document ''keyup'' CheckImage True) (listeners ?s1)),
           children := children ?s1 @ [next_id ?s1],
           next_id := Suc (next_id ?s1),
           trace := trace ?s1 @ [SetSelection (getIndex e i) 0,
                               AddEventListener Document ''keyup'' CheckImage True,
                               AddEventListener Root ''input'' CheckImage True,
                               CreateElement (next_id ?s1),
                               AssignStyle (next_id ?s1) (overlayStyles ?s1),
                               AppendChild (next_id ?s1),
                               AssignStyle (next_id ?s1) (overlay_box e i)]\<rparr>)"
    using assms(1) by (intro showOverlay_fresh) simp_all
  finally show ?thesis by simp
qed




subsection \<open>Delivery of events\<close>

lemma callbacks_base [simp]:
  "callbacks Root ''click'' base_listeners = [HandleClick]"
  "callbacks Root ''mscontrolselect'' base_listeners = [HandleClick]"
  "callbacks Root ''scroll'' base_listeners = [HandleScroll]"
  "callbacks Editor ''text-change'' base_listeners = [TextChange]"
  "callbacks Document ''keyup'' base_listeners = []"
  "callbacks Root ''input'' base_listeners = []"
  by (simp_all add: base_listeners_def)

lemma callbacks_check [simp]:
  "callbacks Root ''click'' (base_listeners @ check_listeners) = [HandleClick]"
  "callbacks Root ''mscontrolselect'' (base_listeners @ check_listeners) = [HandleClick]"
  "callbacks Root ''scroll'' (base_listeners @ check_listeners) = [HandleScroll]"
  "callbacks Editor ''text-change'' (base_listeners @ check_listeners) = [TextChange]"
  "callbacks Document ''keyup'' (base_listeners @ check_listeners) = [CheckImage]"
  "callbacks Root ''input'' (base_listeners @ check_listeners) = [CheckImage]"
  by (simp_all add: base_listeners_def check_listeners_def)

lemma dispatch_click:
  assumes "consistent s"
  shows "dispatch e s (Click el) = state_of (handleClick e s \<lparr>target = Some el, keyCode = None\<rparr>)"
    and "dispatch e s (MsControlSelect el) = state_of (handleClick e s \<lparr>target = Some el, keyCode = None\<rparr>)"
  using assms by (auto simp: consistent_def dispatch_def)

lemma dispatch_scroll:
  assumes "consistent s"
  shows "dispatch e s Scroll = state_of (hide s)"
  using assms by (auto simp: consistent_def dispatch_def handleScroll_def)

lemma dispatch_text_change:
  assumes "consistent s"
  shows "dispatch e s TextChanged = repositionElements e s"
  using assms by (auto simp: consistent_def dispatch_def)



lemma reclick_step:
  assumes "consistent s" "img s = Some el" "image_target \<lparr>target = Some el, keyCode = None\<rparr> = Some el"
    and "sg = Click el \<or> sg = MsControlSelect el"
  shows "dispatch e s sg = s"
  using assms by (auto simp: dispatch_click handleClick_def)

lemma reclick_steps:
  assumes "consistent s" "img s = Some el" "image_target \<lparr>target = Some el, keyCode = None\<rparr> = Some el"
    and "\<forall>p \<in> set steps. snd p = Click el \<or> snd p = MsControlSelect el"
  shows "foldl (\<lambda>s' p. dispatch (fst p) s' (snd p)) s steps = s"
  using assms(4)
proof (induction steps)
  case Nil
  show ?case by simp
next
  case (Cons p ps)
  then have "dispatch (fst p) s (snd p) = s"
    using reclick_step [OF assms(1-3), of "snd p" "fst p"] by simp
  with Cons show ?case by simp
qed

text \<open>
  A click on an image from a state with no image, or with an image whose modules all
  have their hooks, makes that image the active one.
\<close>

lemma img_handleClick:
  assumes "consistent s" "image_target evt = Some el"
    and "img s = None \<or> Controller \<notin> set (modules s)"
  shows "img (state_of (handleClick e s evt)) = Some el"
proof (cases "img s = Some el")
  case True
  with assms show ?thesis by (simp add: handleClick_def)
next
  case False
  show ?thesis
  proof (cases "img s")
    case None
    from show_idle(2) [OF assms(1) None, of e el] assms(2) False None show ?thesis
      by (cases "show e s el") (simp_all add: handleClick_def emit_def)
  next
    case (Some a)
    with assms(3) have nc: "Controller \<notin> set (modules s)" by simp
    from assms(1) Some nc obtain ov where o: "overlay s = Some ov" by (rule selected_overlay)
    obtain s1 where h: "hide s = Returned s1" using hide_selected [OF assms(1) Some o nc] by blast
    from hide_returned(1,2) [OF assms(1) h] have c1: "consistent s1" and i1: "img s1 = None" .
    from show_idle(2) [OF c1 i1, of e el] assms(2) False Some h show ?thesis
      by (cases "show e s1 el") (simp_all add: handleClick_def emit_def)
  qed
qed

lemma hide_fail:
  assumes "consistent s" "Controller \<in> set (modules s)"
  shows "hide s = Threw TypeError (s\<lparr>overlay := None, children := [],
            trace := trace s @ removal_calls s @ map OnDestroy (hooked (modules s))\<rparr>)"
proof (cases "overlay s")
  case None
  with assms have "children s = []" by (simp add: consistent_def)
  with None assms(2) show ?thesis by (simp add: hide_stuck removal_calls_def)
next
  case (Some ov)
  then show ?thesis by (simp add: hide_selected_fail [OF assms(1) Some assms(2)] removal_calls_def)
qed

lemma switch_image:
  assumes c: "consistent s" and i: "img s = Some a" and o: "overlay s = Some ov"
    and nc: "Controller \<notin> set (modules s)"
    and t: "image_target evt = Some b" and ne: "a \<noteq> b"
    and k: "construct_all (moduleClasses s) = (ks, er)"
  shows "trace (state_of (handleClick e s evt)) =
           trace s
           @ ([RemoveChild (ov_id ov),
               RemoveEventListener Document ''keyup'' CheckImage False,
               RemoveEventListener Root ''input'' CheckImage False]
              @ map OnDestroy (modules s) @ [SetImg None])
           @ ([SetImg (Some b),
               SetSelection (getIndex e b) 0,
               AddEventListener Document ''keyup'' CheckImage True,
               AddEventListener Root ''input'' CheckImage True,
               CreateElement (next_id s),
               AssignStyle (next_id s) (overlayStyles s),
               AppendChild (next_id s),
               AssignStyle (next_id s) (overlay_box e b)]
              @ map New ks
              @ (if er = None
                 then map OnCreate (hooked (map new_module ks))
                      @ (if ObjectCtor \<in> set ks then []
                         else [AssignStyle (next_id s) (overlay_box e b)]
                              @ map OnUpdate (map new_module ks) @ [PreventDefault])
                 else []))"
proof -
  let ?s1 = "s\<lparr>img := None, overlay := None, modules := [], children := [],
            trace := trace s @ [RemoveChild (ov_id ov),
                                RemoveEventListener Document ''keyup'' CheckImage False,
                                RemoveEventListener Root ''input'' CheckImage False]
                             @ map OnDestroy (modules s) @ [SetImg None]\<rparr>"
  have h: "hide s = Returned ?s1" by (rule hide_selected [OF c i o nc])
  have hc: "handleClick e s evt = seq (show e ?s1 b) (\<lambda>s2. Returned (emit [PreventDefault] s2))"
    using t i ne by (simp add: handleClick_def h)
  have o1: "overlay ?s1 = None" and m1: "Controller \<notin> set (modules ?s1)" by simp_all
  show ?thesis
  proof (cases er)
    case (Some err)
    with k have k1: "construct_all (moduleClasses ?s1) = (ks, Some err)" by simp
    show ?thesis unfolding hc show_fresh_fail [OF o1 k1 m1] using Some by simp
  next
    case None
    with k have k1: "construct_all (moduleClasses ?s1) = (ks, None)" by simp
    show ?thesis
    proof (cases "ObjectCtor \<in> set ks")
      case True
      show ?thesis unfolding hc show_fresh_nohook [OF o1 k1 True m1] using None True by simp
    next
      case False
      show ?thesis unfolding hc show_fresh_ok [OF o1 k1 False m1] using None False
        by (simp add: emit_def new_module_instances hooked_all)
    qed
  qed
qed

lemma switch_image_fail:
  assumes c: "consistent s" and i: "img s = Some a" and m: "Controller \<in> set (modules s)"
    and t: "image_target evt = Some b" and ne: "a \<noteq> b"
  shows "handleClick e s evt = Threw TypeError (s\<lparr>overlay := None, children := [],
            trace := trace s @ removal_calls s @ map OnDestroy (hooked (modules s))\<rparr>)"
  using t i ne by (simp add: handleClick_def hide_fail [OF c m])

subsection \<open>The example inputs\<close>

lemma image_target_imgA: "image_target \<lparr>target = Some imgA, keyCode = None\<rparr> = Some imgA"
  by (simp add: image_target_def imgA_def toUpperCase_def upper_char_def)

lemma image_target_imgB: "image_target \<lparr>target = Some imgB, keyCode = None\<rparr> = Some imgB"
  by (simp add: image_target_def imgB_def toUpperCase_def upper_char_def)

lemma image_target_par0: "image_target \<lparr>target = Some par0, keyCode = None\<rparr> = None"
  by (simp add: image_target_def par0_def toUpperCase_def upper_char_def)

lemma constructor_value:
  "constructor opts = \<lparr>img = None, overlay = None, modules = [],
      moduleClasses = opt_modules opts, overlayStyles = opt_overlayStyles opts,
      listeners = base_listeners, children = [], next_id = 0,
      trace = [ExecCommand ''enableObjectResizing'',
               AddEventListener Root ''click'' HandleClick False,
               AddEventListener Root ''mscontrolselect'' HandleClick False,
               AddEventListener Root ''scroll'' HandleScroll False,
               On ''text-change'' TextChange]\<rparr>"
  by (simp add: constructor_def quill_on_def addEventListener_def add_listener_def base_listeners_def)

lemma overlay_box_env0:
  "overlay_box env0 i = [(''left'', Px 14), (''top'', Px 20), (''width'', Px 200), (''height'', Px 150)]"
  by (simp add: overlay_box_def env0_def)

lemma overlay_box_env_gone: "overlay_box env_gone i = overlay_box env0 i"
  by (simp add: overlay_box_def env_gone_def)

lemma sel0_value:
  "sel0 = \<lparr>img = Some imgA,
           overlay = Some (Overlay 0 [(''position'', Css ''absolute''), (''left'', Px 14),
                                      (''top'', Px 20), (''width'', Px 200), (''height'', Px 150)]),
           modules = [Instance DisplaySize, Instance Resize],
           moduleClasses = [Named ''DisplaySize'', Named ''Resize''],
           overlayStyles = [(''position'', Css ''absolute'')],
           listeners = base_listeners @ check_listeners,
           children = [0], next_id = 1,
           trace = [ExecCommand ''enableObjectResizing'',
                    AddEventListener Root ''click'' HandleClick False,
                    AddEventListener Root ''mscontrolselect'' HandleClick False,
                    AddEventListener Root ''scroll'' HandleScroll False,
                    On ''text-change'' TextChange,
                    SetImg (Some imgA), SetSelection 1 0,
                    AddEventListener Document ''keyup'' CheckImage True,
                    AddEventListener Root ''input'' CheckImage True,
                    CreateElement 0,
                    AssignStyle 0 [(''position'', Css ''absolute'')],
                    AppendChild 0,
                    AssignStyle 0 [(''left'', Px 14), (''top'', Px 20), (''width'', Px 200), (''height'', Px 150)],
                    New DisplaySize, New Resize,
                    OnCreate (Instance DisplaySize), OnCreate (Instance Resize),
                    AssignStyle 0 [(''left'', Px 14), (''top'', Px 20), (''width'', Px 200), (''height'', Px 150)],
                    OnUpdate (Instance DisplaySize), OnUpdate (Instance Resize),
                    PreventDefault]\<rparr>"
proof -
  have c: "construct_all [Named ''DisplaySize'', Named ''Resize''] = ([DisplaySize, Resize], None)"
    by simp
  have g: "getIndex env0 imgA = 1" by (simp add: env0_def imgA_def)
  show ?thesis
    by (simp add: sel0_def dispatch_def constructor_value opts0_def handleClick_def
        image_target_imgA show_fresh_ok [where ks = "[DisplaySize, Resize]"] c g emit_def
        overlay_box_env0 object_assign_def add_check_listeners)
qed

lemma reachable_sel0: "reachable sel0"
  unfolding sel0_def by (intro reachable.intros)

lemma sel1_value:
  "sel1 = \<lparr>img = Some imgA,
           overlay = Some (Overlay 0 [(''position'', Css ''absolute''), (''left'', Px 14),
                                      (''top'', Px 20), (''width'', Px 200), (''height'', Px 150)]),
           modules = [],
           moduleClasses = [Named ''Resize'', Named ''Crop''],
           overlayStyles = [(''position'', Css ''absolute'')],
           listeners = base_listeners @ check_listeners,
           children = [0], next_id = 1,
           trace = [ExecCommand ''enableObjectResizing'',
                    AddEventListener Root ''click'' HandleClick False,
                    AddEventListener Root ''mscontrolselect'' HandleClick False,
                    AddEventListener Root ''scroll'' HandleScroll False,
                    On ''text-change'' TextChange,
                    SetImg (Some imgA), SetSelection 1 0,
                    AddEventListener Document ''keyup'' CheckImage True,
                    AddEventListener Root ''input'' CheckImage True,
                    CreateElement 0,
                    AssignStyle 0 [(''position'', Css ''absolute'')],
                    AppendChild 0,
                    AssignStyle 0 [(''left'', Px 14), (''top'', Px 20), (''width'', Px 200), (''height'', Px 150)],
                    New Resize]\<rparr>"
proof -
  have c: "construct_all [Named ''Resize'', Named ''Crop''] = ([Resize], Some TypeError)"
    by simp
  have g: "getIndex env0 imgA = 1" by (simp add: env0_def imgA_def)
  show ?thesis
    by (simp add: sel1_def dispatch_def constructor_value opts1_def handleClick_def
        image_target_imgA show_fresh_fail [where ks = "[Resize]" and er = TypeError] c g emit_def
        overlay_box_env0 object_assign_def add_check_listeners)
qed

lemma reachable_sel1: "reachable sel1"
  unfolding sel1_def by (intro reachable.intros)

lemma selC_value:
  "selC = \<lparr>img = Some imgA,
           overlay = Some (Overlay 0 [(''position'', Css ''absolute''), (''left'', Px 14),
                                      (''top'', Px 20), (''width'', Px 200), (''height'', Px 150)]),
           modules = [Instance Resize, Controller],
           moduleClasses = [Named ''Resize'', Named ''constructor''],
           overlayStyles = [(''position'', Css ''absolute'')],
           listeners = base_listeners @ check_listeners,
           children = [0], next_id = 1,
           trace = [ExecCommand ''enableObjectResizing'',
                    AddEventListener Root ''click'' HandleClick False,
                    AddEventListener Root ''mscontrolselect'' HandleClick False,
                    AddEventListener Root ''scroll'' HandleScroll False,
                    On ''text-change'' TextChange,
                    SetImg (Some imgA), SetSelection 1 0,
                    AddEventListener Document ''keyup'' CheckImage True,
                    AddEventListener Root ''input'' CheckImage True,
                    CreateElement 0,
                    AssignStyle 0 [(''position'', Css ''absolute'')],
                    AppendChild 0,
                    AssignStyle 0 [(''left'', Px 14), (''top'', Px 20), (''width'', Px 200), (''height'', Px 150)],
                    New Resize, New ObjectCtor,
                    OnCreate (Instance Resize)]\<rparr>"
proof -
  have c: "construct_all [Named ''Resize'', Named ''constructor''] = ([Resize, ObjectCtor], None)"
    by simp
  have g: "getIndex env0 imgA = 1" by (simp add: env0_def imgA_def)
  show ?thesis
    by (simp add: selC_def dispatch_def constructor_value optsC_def handleClick_def
        image_target_imgA show_fresh_nohook [where ks = "[Resize, ObjectCtor]"] c g emit_def
        overlay_box_env0 object_assign_def add_check_listeners hooked_def)
qed

lemma reachable_selC: "reachable selC"
  unfolding selC_def by (intro reachable.intros)

lemma hide_selC:
  "hide selC = Threw TypeError (selC\<lparr>overlay := None, children := [],
     trace := trace selC @ [RemoveChild 0,
                            RemoveEventListener Document ''keyup'' CheckImage False,
                            RemoveEventListener Root ''input'' CheckImage False,
                            OnDestroy (Instance Resize)]\<rparr>)"
proof -
  have c: "consistent selC" using reachable_selC by (rule reachable_consistent)
  have m: "Controller \<in> set (modules selC)" by (simp add: selC_value)
  have r: "removal_calls selC = [RemoveChild 0,
                            RemoveEventListener Document ''keyup'' CheckImage False,
                            RemoveEventListener Root ''input'' CheckImage False]"
    by (simp add: removal_calls_def selC_value)
  have h: "hooked (modules selC) = [Instance Resize]" by (simp add: selC_value hooked_def)
  show ?thesis by (simp add: hide_fail [OF c m] r h)
qed

lemma stuckC_value:
  "stuckC = selC\<lparr>overlay := None, children := [],
     trace := trace selC @ [RemoveChild 0,
                            RemoveEventListener Document ''keyup'' CheckImage False,
                            RemoveEventListener Root ''input'' CheckImage False,
                            OnDestroy (Instance Resize)]\<rparr>"
proof -
  have c: "consistent selC" using reachable_selC by (rule reachable_consistent)
  have i: "img selC = Some imgA" by (simp add: selC_value)
  show ?thesis
    using i by (simp add: stuckC_def dispatch_click [OF c] handleClick_def image_target_par0 hide_selC)
qed

lemma reachable_stuckC: "reachable stuckC"
  unfolding stuckC_def using reachable_selC by (rule reachable.step)

section \<open>The claims\<close>

text \<open>
  C1. As stated the claim fails twice. The order is not modules, overlay, image
  reference: \<open>hide\<close> calls \<open>hideOverlay\<close> before \<open>removeModules\<close>, so after a click on an
  image with the two built-in modules the calls of \<open>hide\<close> start with \<open>removeChild\<close> on
  the overlay and the \<open>onDestroy\<close> hooks come after it. And the three steps are not
  unconditional: \<open>hide\<close> catches nothing, so with the configured list
  \<open>['Resize', 'constructor']\<close> the \<open>onDestroy\<close> call on the second module (the controller
  itself) throws, after the overlay is gone, and the image reference is not cleared.
\<close>

theorem C1_counterexample:
  "reachable sel0 \<and> img sel0 = Some imgA
   \<and> new_calls sel0 (state_of (hide sel0)) =
       [RemoveChild 0,
        RemoveEventListener Document ''keyup'' CheckImage False,
        RemoveEventListener Root ''input'' CheckImage False,
        OnDestroy (Instance DisplaySize), OnDestroy (Instance Resize),
        SetImg None]
   \<and> \<not> all_before is_OnDestroy is_RemoveChild (new_calls sel0 (state_of (hide sel0)))
   \<and> reachable selC \<and> img selC = Some imgA
   \<and> hide selC = Threw TypeError (state_of (hide selC))
   \<and> img (state_of (hide selC)) = Some imgA
   \<and> overlay (state_of (hide selC)) = None
   \<and> new_calls selC (state_of (hide selC)) =
       [RemoveChild 0,
        RemoveEventListener Document ''keyup'' CheckImage False,
        RemoveEventListener Root ''input'' CheckImage False,
        OnDestroy (Instance Resize)]"
proof -
  have c: "consistent sel0" using reachable_sel0 by (rule reachable_consistent)
  have i: "img sel0 = Some imgA" and o: "overlay sel0 = Some (Overlay 0 [(''position'', Css ''absolute''), (''left'', Px 14),
                                      (''top'', Px 20), (''width'', Px 200), (''height'', Px 150)])"
    and m: "Controller \<notin> set (modules sel0)"
    by (simp_all add: sel0_value)
  have n: "new_calls sel0 (state_of (hide sel0)) =
       [RemoveChild 0,
        RemoveEventListener Document ''keyup'' CheckImage False,
        RemoveEventListener Root ''input'' CheckImage False,
        OnDestroy (Instance DisplaySize), OnDestroy (Instance Resize),
        SetImg None]"
    by (simp add: hide_selected [OF c i o m] new_calls_def) (simp add: sel0_value)
  have iC: "img selC = Some imgA" by (simp add: selC_value)
  have p1: "\<not> all_before is_OnDestroy is_RemoveChild (new_calls sel0 (state_of (hide sel0)))"
    by (simp add: n)
  have p2: "hide selC = Threw TypeError (state_of (hide selC))
      \<and> img (state_of (hide selC)) = Some imgA
      \<and> overlay (state_of (hide selC)) = None
      \<and> new_calls selC (state_of (hide selC)) =
          [RemoveChild 0,
           RemoveEventListener Document ''keyup'' CheckImage False,
           RemoveEventListener Root ''input'' CheckImage False,
           OnDestroy (Instance Resize)]"
    using iC by (simp add: hide_selC new_calls_def)
  from reachable_sel0 reachable_selC i iC n p1 p2 show ?thesis by blast
qed

text \<open>
  C1, amended. In every reachable state with an active image, \<open>hide\<close> makes its calls in
  this order: the overlay is removed from the parent (and the two \<open>removeEventListener\<close>
  calls are made), then \<open>onDestroy\<close> runs on the module instances in list order, and
  last the image reference is cleared. When every module has its \<open>onDestroy\<close> hook, all
  three steps execute and \<open>hide\<close> returns: afterwards there is no overlay, no attached
  overlay element, no module and no active image. When the controller is among its own
  modules, \<open>hide\<close> throws at the hook call on it: the overlay (if any) is gone, the hooks
  before it have run, the modules and the image reference stay.
\<close>

theorem C1_hide_order:
  assumes "reachable s" and "img s = Some i"
  shows "(Controller \<notin> set (modules s) \<longrightarrow>
           (\<exists>ov. overlay s = Some ov
              \<and> hide s = Returned (s\<lparr>img := None, overlay := None, modules := [], children := [],
                  trace := trace s @ [RemoveChild (ov_id ov),
                                      RemoveEventListener Document ''keyup'' CheckImage False,
                                      RemoveEventListener Root ''input'' CheckImage False]
                                   @ map OnDestroy (modules s) @ [SetImg None]\<rparr>)))
       \<and> (Controller \<in> set (modules s) \<longrightarrow>
           hide s = Threw TypeError (s\<lparr>overlay := None, children := [],
                  trace := trace s @ removal_calls s @ map OnDestroy (hooked (modules s))\<rparr>))"
proof -
  from assms(1) have c: "consistent s" by (rule reachable_consistent)
  have "\<exists>ov. overlay s = Some ov
              \<and> hide s = Returned (s\<lparr>img := None, overlay := None, modules := [], children := [],
                  trace := trace s @ [RemoveChild (ov_id ov),
                                      RemoveEventListener Document ''keyup'' CheckImage False,
                                      RemoveEventListener Root ''input'' CheckImage False]
                                   @ map OnDestroy (modules s) @ [SetImg None]\<rparr>)"
    if m: "Controller \<notin> set (modules s)"
  proof -
    from c assms(2) m obtain ov where o: "overlay s = Some ov" by (rule selected_overlay)
    from hide_selected [OF c assms(2) o m] o show ?thesis by blast
  qed
  with hide_fail [OF c] show ?thesis by blast
qed

theorem C1_hide_order_witness:
  "(\<exists>ov. overlay sel0 = Some ov
          \<and> hide sel0 = Returned (sel0\<lparr>img := None, overlay := None, modules := [], children := [],
              trace := trace sel0 @ [RemoveChild (ov_id ov),
                                  RemoveEventListener Document ''keyup'' CheckImage False,
                                  RemoveEventListener Root ''input'' CheckImage False]
                               @ map OnDestroy (modules sel0) @ [SetImg None]\<rparr>))
   \<and> hide selC = Threw TypeError (selC\<lparr>overlay := None, children := [],
              trace := trace selC @ removal_calls selC @ map OnDestroy (hooked (modules selC))\<rparr>)"
proof -
  have i: "img sel0 = Some imgA" and m: "Controller \<notin> set (modules sel0)"
    by (simp_all add: sel0_value)
  have iC: "img selC = Some imgA" and mC: "Controller \<in> set (modules selC)"
    by (simp_all add: selC_value)
  from C1_hide_order [OF reachable_sel0 i] m C1_hide_order [OF reachable_selC iC] mC
  show ?thesis by blast
qed

text \<open>
  C2. As stated the claim fails: the \<open>text-change\<close> handler of the constructor calls
  \<open>repositionElements\<close> only, not \<open>onUpdate\<close>. With an image selected and two modules
  live, a \<open>text-change\<close> restyles the overlay and calls no module hook.
\<close>

theorem C2_counterexample:
  "reachable sel0 \<and> img sel0 = Some imgA
   \<and> modules sel0 = [Instance DisplaySize, Instance Resize]
   \<and> new_calls sel0 (dispatch env0 sel0 TextChanged) =
        [AssignStyle 0 [(''left'', Px 14), (''top'', Px 20), (''width'', Px 200), (''height'', Px 150)]]
   \<and> \<not> list_ex is_OnUpdate (new_calls sel0 (dispatch env0 sel0 TextChanged))"
proof -
  have c: "consistent sel0" using reachable_sel0 by (rule reachable_consistent)
  have n: "new_calls sel0 (dispatch env0 sel0 TextChanged) =
        [AssignStyle 0 [(''left'', Px 14), (''top'', Px 20), (''width'', Px 200), (''height'', Px 150)]]"
    by (simp add: dispatch_text_change [OF c] new_calls_def)
       (simp add: sel0_value repositionElements_def overlay_box_env0)
  show ?thesis using reachable_sel0 by (simp add: n) (simp add: sel0_value)
qed

text \<open>
  C2, amended. On every \<open>text-change\<close> of the host editor: with an image selected the
  controller recomputes the overlay geometry and assigns it to the overlay's style, and
  that is all it does (the modules get no call); with no image selected nothing changes.
  An image selected with modules that all have their hooks has an overlay; where a
  teardown that threw has left an image without an overlay, nothing changes either.
\<close>

theorem C2_text_change:
  assumes "reachable s"
  shows "(img s = None \<longrightarrow> dispatch e s TextChanged = s)
       \<and> (\<forall>i. img s = Some i \<longrightarrow> Controller \<notin> set (modules s) \<longrightarrow>
            (\<exists>ov. overlay s = Some ov
               \<and> dispatch e s TextChanged = s\<lparr>
                    overlay := Some (Overlay (ov_id ov) (object_assign (ov_style ov) (overlay_box e i))),
                    trace := trace s @ [AssignStyle (ov_id ov) (overlay_box e i)]\<rparr>))
       \<and> (\<forall>i ov. img s = Some i \<longrightarrow> overlay s = Some ov \<longrightarrow>
            dispatch e s TextChanged = s\<lparr>
                    overlay := Some (Overlay (ov_id ov) (object_assign (ov_style ov) (overlay_box e i))),
                    trace := trace s @ [AssignStyle (ov_id ov) (overlay_box e i)]\<rparr>)
       \<and> (overlay s = None \<longrightarrow> dispatch e s TextChanged = s)"
proof -
  from assms have c: "consistent s" by (rule reachable_consistent)
  have a: "dispatch e s TextChanged = s" if "img s = None \<or> overlay s = None"
    using that by (simp add: dispatch_text_change [OF c] repositionElements_idle)
  have b: "dispatch e s TextChanged = s\<lparr>
                    overlay := Some (Overlay (ov_id ov) (object_assign (ov_style ov) (overlay_box e i))),
                    trace := trace s @ [AssignStyle (ov_id ov) (overlay_box e i)]\<rparr>"
    if "img s = Some i" "overlay s = Some ov" for i ov
    using that by (simp add: dispatch_text_change [OF c] repositionElements_selected)
  have "\<exists>ov. overlay s = Some ov
               \<and> dispatch e s TextChanged = s\<lparr>
                    overlay := Some (Overlay (ov_id ov) (object_assign (ov_style ov) (overlay_box e i))),
                    trace := trace s @ [AssignStyle (ov_id ov) (overlay_box e i)]\<rparr>"
    if i: "img s = Some i" and m: "Controller \<notin> set (modules s)" for i
  proof -
    from c i m obtain ov where o: "overlay s = Some ov" by (rule selected_overlay)
    from b [OF i o] o show ?thesis by blast
  qed
  with a b show ?thesis by blast
qed

theorem C2_text_change_witness:
  "dispatch env0 (constructor opts0) TextChanged = constructor opts0
   \<and> (\<exists>ov. overlay sel0 = Some ov
         \<and> dispatch env0 sel0 TextChanged = sel0\<lparr>
              overlay := Some (Overlay (ov_id ov) (object_assign (ov_style ov) (overlay_box env0 imgA))),
              trace := trace sel0 @ [AssignStyle (ov_id ov) (overlay_box env0 imgA)]\<rparr>)
   \<and> img stuckC = Some imgA
   \<and> dispatch env0 stuckC TextChanged = stuckC"
proof -
  have i0: "img (constructor opts0) = None" by (simp add: constructor_value)
  have i1: "img sel0 = Some imgA" and m1: "Controller \<notin> set (modules sel0)"
    by (simp_all add: sel0_value)
  have i2: "img stuckC = Some imgA" and o2: "overlay stuckC = None"
    by (simp_all add: stuckC_value selC_value)
  from C2_text_change [OF reachable.init, of opts0 env0] i0
  have a: "dispatch env0 (constructor opts0) TextChanged = constructor opts0" by blast
  from C2_text_change [OF reachable_sel0, of env0] i1 m1
  have b: "\<exists>ov. overlay sel0 = Some ov
         \<and> dispatch env0 sel0 TextChanged = sel0\<lparr>
              overlay := Some (Overlay (ov_id ov) (object_assign (ov_style ov) (overlay_box env0 imgA))),
              trace := trace sel0 @ [AssignStyle (ov_id ov) (overlay_box env0 imgA)]\<rparr>" by blast
  from C2_text_change [OF reachable_stuckC, of env0] o2
  have d: "dispatch env0 stuckC TextChanged = stuckC" by blast
  from a b i2 d show ?thesis by blast
qed

text \<open>
  C3. With an overlay and an active image, \<open>repositionElements\<close> assigns to the overlay's
  style exactly \<open>left = image.left - container.left - 1 + scrollLeft\<close>,
  \<open>top = image.top - container.top + scrollTop\<close>, \<open>width = image.width\<close>,
  \<open>height = image.height\<close> (each with the unit px), leaves every other style property as
  it was, and changes nothing else but the log. For the image box 110, 40, 200, 150, the
  container at 100, 20 and the scroll offsets 5, 0 this is 14, 20, 200, 150.
\<close>

theorem C3_reposition_box:
  assumes "overlay s = Some ov" and "img s = Some i"
  shows "repositionElements e s = s\<lparr>
           overlay := Some (Overlay (ov_id ov) (object_assign (ov_style ov) (overlay_box e i))),
           trace := trace s @ [AssignStyle (ov_id ov) (overlay_box e i)]\<rparr>
       \<and> overlay_box e i =
           [(''left'', Px (rect_left (imgRect e i) - rect_left (containerRect e) - 1 + scrollLeft e)),
            (''top'', Px (rect_top (imgRect e i) - rect_top (containerRect e) + scrollTop e)),
            (''width'', Px (rect_width (imgRect e i))),
            (''height'', Px (rect_height (imgRect e i)))]
       \<and> map_of (object_assign (ov_style ov) (overlay_box e i)) =
           (map_of (ov_style ov))
             (''left'' \<mapsto> Px (rect_left (imgRect e i) - rect_left (containerRect e) - 1 + scrollLeft e),
              ''top'' \<mapsto> Px (rect_top (imgRect e i) - rect_top (containerRect e) + scrollTop e),
              ''width'' \<mapsto> Px (rect_width (imgRect e i)),
              ''height'' \<mapsto> Px (rect_height (imgRect e i)))"
  using assms
  by (simp add: repositionElements_selected [OF assms] map_of_assign_box overlay_box_def Let_def)

theorem C3_reposition_box_witness:
  "repositionElements env0 (sel0\<lparr>overlay := Some (Overlay 0 [(''position'', Css ''absolute'')])\<rparr>)
     = sel0\<lparr>overlay := Some (Overlay 0 [(''position'', Css ''absolute''), (''left'', Px 14),
                                         (''top'', Px 20), (''width'', Px 200), (''height'', Px 150)]),
            trace := trace sel0 @ [AssignStyle 0 [(''left'', Px 14), (''top'', Px 20),
                                                  (''width'', Px 200), (''height'', Px 150)]]\<rparr>
   \<and> overlay_box env0 imgA =
        [(''left'', Px 14), (''top'', Px 20), (''width'', Px 200), (''height'', Px 150)]"
proof -
  have o: "overlay (sel0\<lparr>overlay := Some (Overlay 0 [(''position'', Css ''absolute'')])\<rparr>)
             = Some (Overlay 0 [(''position'', Css ''absolute'')])" by simp
  have i: "img (sel0\<lparr>overlay := Some (Overlay 0 [(''position'', Css ''absolute'')])\<rparr>) = Some imgA"
    by (simp add: sel0_value)
  from C3_reposition_box [OF o i, of env0] show ?thesis
    by (simp add: overlay_box_env0 object_assign_def)
qed

text \<open>
  C4. The code does not do what the claim says. \<open>showOverlay\<close> registers \<open>checkImage\<close> for
  \<open>keyup\<close> on the document and for \<open>input\<close> on the root with the capture flag set;
  \<open>hideOverlay\<close> calls \<open>removeEventListener\<close> without the flag, which names a listener that
  was never registered. After a click on an image and a click on a paragraph the
  controller is idle, and both listeners are still registered and still delivered to.
\<close>

theorem C4_listeners_remain:
  "img (dispatch env0 sel0 (Click par0)) = None
   \<and> overlay (dispatch env0 sel0 (Click par0)) = None
   \<and> new_calls sel0 (dispatch env0 sel0 (Click par0)) =
        [RemoveChild 0,
         RemoveEventListener Document ''keyup'' CheckImage False,
         RemoveEventListener Root ''input'' CheckImage False,
         OnDestroy (Instance DisplaySize), OnDestroy (Instance Resize),
         SetImg None]
   \<and> listeners (dispatch env0 sel0 (Click par0)) =
        [Listener Root ''click'' HandleClick False,
         Listener Root ''mscontrolselect'' HandleClick False,
         Listener Root ''scroll'' HandleScroll False,
         Listener Editor ''text-change'' TextChange False,
         Listener Document ''keyup'' CheckImage True,
         Listener Root ''input'' CheckImage True]
   \<and> callbacks Document ''keyup'' (listeners (dispatch env0 sel0 (Click par0))) = [CheckImage]
   \<and> callbacks Root ''input'' (listeners (dispatch env0 sel0 (Click par0))) = [CheckImage]"
proof -
  have c: "consistent sel0" using reachable_sel0 by (rule reachable_consistent)
  have i: "img sel0 = Some imgA" and o: "overlay sel0 = Some (Overlay 0 [(''position'', Css ''absolute''), (''left'', Px 14),
                                      (''top'', Px 20), (''width'', Px 200), (''height'', Px 150)])"
    and m: "Controller \<notin> set (modules sel0)"
    by (simp_all add: sel0_value)
  have d: "dispatch env0 sel0 (Click par0) = state_of (hide sel0)"
    using i by (simp add: dispatch_click [OF c] handleClick_def image_target_par0)
  show ?thesis
    by (simp add: d hide_selected [OF c i o m] new_calls_def)
       (simp add: sel0_value base_listeners_def check_listeners_def)
qed

text \<open>
  C5. As stated the claim fails: with an overlay present \<open>showOverlay\<close> is not a no-op. It
  calls \<open>hideOverlay\<close> first and then goes on as it does without one. In the state after
  a click on an image, a further \<open>showOverlay\<close> removes overlay element 0 and allocates,
  styles and attaches element 1.
\<close>

theorem C5_counterexample:
  "reachable sel0
   \<and> map_option ov_id (overlay sel0) = Some 0
   \<and> showOverlay env0 sel0 \<noteq> Returned sel0
   \<and> map_option ov_id (overlay (state_of (showOverlay env0 sel0))) = Some 1
   \<and> children (state_of (showOverlay env0 sel0)) = [1]
   \<and> new_calls sel0 (state_of (showOverlay env0 sel0)) =
        [RemoveChild 0,
         RemoveEventListener Document ''keyup'' CheckImage False,
         RemoveEventListener Root ''input'' CheckImage False,
         SetSelection 1 0,
         AddEventListener Document ''keyup'' CheckImage True,
         AddEventListener Root ''input'' CheckImage True,
         CreateElement 1,
         AssignStyle 1 [(''position'', Css ''absolute'')],
         AppendChild 1,
         AssignStyle 1 [(''left'', Px 14), (''top'', Px 20), (''width'', Px 200), (''height'', Px 150)]]"
proof -
  have i: "img sel0 = Some imgA" and o: "overlay sel0 = Some (Overlay 0 [(''position'', Css ''absolute''), (''left'', Px 14),
                                      (''top'', Px 20), (''width'', Px 200), (''height'', Px 150)])"
    and ch: "ov_id (Overlay 0 [(''position'', Css ''absolute''), (''left'', Px 14),
                                      (''top'', Px 20), (''width'', Px 200), (''height'', Px 150)]) \<in> set (children sel0)"
    by (simp_all add: sel0_value)
  have g: "getIndex env0 imgA = 1" by (simp add: env0_def imgA_def)
  have n: "next_id sel0 = 1" and st: "overlayStyles sel0 = [(''position'', Css ''absolute'')]"
    and c: "children sel0 = [0]"
    by (simp_all add: sel0_value)
  have ne: "showOverlay env0 sel0 \<noteq> Returned sel0"
  proof
    assume "showOverlay env0 sel0 = Returned sel0"
    then have "next_id (state_of (showOverlay env0 sel0)) = next_id sel0" by simp
    then show False by (simp add: showOverlay_replace [OF i o ch])
  qed
  show ?thesis
    using reachable_sel0 ne o
    by (simp add: showOverlay_replace [OF i o ch] new_calls_def g n st c overlay_box_env0)
qed

text \<open>
  C5, amended. With an active image, \<open>showOverlay\<close> returns and always allocates a fresh
  element, styles it from the configuration, attaches it to the parent of the editor root
  and recomputes the geometry. If an overlay already exists (attached to the parent),
  that one is removed first and replaced by the fresh one.
\<close>

theorem C5_showOverlay:
  assumes "img s = Some i"
  shows "(overlay s = None \<longrightarrow>
            showOverlay e s = Returned (s\<lparr>
              overlay := Some (Overlay (next_id s)
                           (object_assign (object_assign [] (overlayStyles s)) (overlay_box e i))),
              listeners := add_listener (Listener Root ''input'' CheckImage True)
                             (add_listener (Listener Document ''keyup'' CheckImage True) (listeners s)),
              children := children s @ [next_id s],
              next_id := Suc (next_id s),
              trace := trace s @ [SetSelection (getIndex e i) 0,
                                  AddEventListener Document ''keyup'' CheckImage True,
                                  AddEventListener Root ''input'' CheckImage True,
                                  CreateElement (next_id s),
                                  AssignStyle (next_id s) (overlayStyles s),
                                  AppendChild (next_id s),
                                  AssignStyle (next_id s) (overlay_box e i)]\<rparr>))
       \<and> (\<forall>ov. overlay s = Some ov \<longrightarrow> ov_id ov \<in> set (children s) \<longrightarrow>
            showOverlay e s = Returned (s\<lparr>
              overlay := Some (Overlay (next_id s)
                           (object_assign (object_assign [] (overlayStyles s)) (overlay_box e i))),
              listeners := add_listener (Listener Root ''input'' CheckImage True)
                             (add_listener (Listener Document ''keyup'' CheckImage True)
                               (remove1 (Listener Root ''input'' CheckImage False)
                                 (remove1 (Listener Document ''keyup'' CheckImage False) (listeners s)))),
              children := remove1 (ov_id ov) (children s) @ [next_id s],
              next_id := Suc (next_id s),
              trace := trace s @ [RemoveChild (ov_id ov),
                                  RemoveEventListener Document ''keyup'' CheckImage False,
                                  RemoveEventListener Root ''input'' CheckImage False,
                                  SetSelection (getIndex e i) 0,
                                  AddEventListener Document ''keyup'' CheckImage True,
                                  AddEventListener Root ''input'' CheckImage True,
                                  CreateElement (next_id s),
                                  AssignStyle (next_id s) (overlayStyles s),
                                  AppendChild (next_id s),
                                  AssignStyle (next_id s) (overlay_box e i)]\<rparr>))"
  using showOverlay_fresh [OF _ assms, of e] showOverlay_replace [OF assms, of _ e]
  by blast

theorem C5_showOverlay_witness:
  "overlay (state_of (showOverlay env0 ((constructor opts0)\<lparr>img := Some imgA\<rparr>))) =
     Some (Overlay 0 [(''position'', Css ''absolute''), (''left'', Px 14), (''top'', Px 20),
                      (''width'', Px 200), (''height'', Px 150)])
   \<and> children (state_of (showOverlay env0 ((constructor opts0)\<lparr>img := Some imgA\<rparr>))) = [0]
   \<and> overlay (state_of (showOverlay env0 sel0)) =
     Some (Overlay 1 [(''position'', Css ''absolute''), (''left'', Px 14), (''top'', Px 20),
                      (''width'', Px 200), (''height'', Px 150)])
   \<and> children (state_of (showOverlay env0 sel0)) = [1]"
proof -
  have i0: "img ((constructor opts0)\<lparr>img := Some imgA\<rparr>) = Some imgA" by simp
  have o0: "overlay ((constructor opts0)\<lparr>img := Some imgA\<rparr>) = None" by (simp add: constructor_value)
  have i1: "img sel0 = Some imgA" by (simp add: sel0_value)
  have o1: "overlay sel0 = Some (Overlay 0 [(''position'', Css ''absolute''), (''left'', Px 14),
                                      (''top'', Px 20), (''width'', Px 200), (''height'', Px 150)])"
    and c1: "ov_id (Overlay 0 [(''position'', Css ''absolute''), (''left'', Px 14),
                                      (''top'', Px 20), (''width'', Px 200), (''height'', Px 150)]) \<in> set (children sel0)"
    by (simp_all add: sel0_value)
  have a: "overlay (state_of (showOverlay env0 ((constructor opts0)\<lparr>img := Some imgA\<rparr>))) =
     Some (Overlay 0 [(''position'', Css ''absolute''), (''left'', Px 14), (''top'', Px 20),
                      (''width'', Px 200), (''height'', Px 150)])
   \<and> children (state_of (showOverlay env0 ((constructor opts0)\<lparr>img := Some imgA\<rparr>))) = [0]"
    using C5_showOverlay [OF i0, of env0] o0
    by (simp add: constructor_value opts0_def overlay_box_env0 object_assign_def)
  have b: "overlay (state_of (showOverlay env0 sel0)) =
     Some (Overlay 1 [(''position'', Css ''absolute''), (''left'', Px 14), (''top'', Px 20),
                      (''width'', Px 200), (''height'', Px 150)])
   \<and> children (state_of (showOverlay env0 sel0)) = [1]"
    using C5_showOverlay [OF i1, of env0] o1 c1
    by (simp add: overlay_box_env0 object_assign_def) (simp add: sel0_value object_assign_def)
  from a b show ?thesis by simp
qed




text \<open>
  C7. A click (or \<open>mscontrolselect\<close>) on the image that is already active changes nothing:
  not the fields, not the document, not the log; so does any sequence of such events,
  whatever the layout at each. In particular, after a first click on an image from a
  state with no image, or with an image whose modules all have their hooks, any further
  sequence of such events on that image leaves the state of the first click: overlay
  and modules were made once.
\<close>

theorem C7_reclick_noop:
  assumes "reachable s"
    and "image_target \<lparr>target = Some el, keyCode = None\<rparr> = Some el"
    and "\<forall>p \<in> set steps. snd p = Click el \<or> snd p = MsControlSelect el"
  shows "(img s = Some el \<longrightarrow>
            handleClick e s \<lparr>target = Some el, keyCode = None\<rparr> = Returned s
            \<and> foldl (\<lambda>s' p. dispatch (fst p) s' (snd p)) s steps = s)
       \<and> (img s = None \<or> Controller \<notin> set (modules s) \<longrightarrow>
            foldl (\<lambda>s' p. dispatch (fst p) s' (snd p)) (dispatch e s (Click el)) steps
              = dispatch e s (Click el))"
proof -
  from assms(1) have c: "consistent s" by (rule reachable_consistent)
  have a: "handleClick e s \<lparr>target = Some el, keyCode = None\<rparr> = Returned s
            \<and> foldl (\<lambda>s' p. dispatch (fst p) s' (snd p)) s steps = s"
    if i: "img s = Some el"
    using reclick_steps [OF c i assms(2) assms(3)] assms(2) i by (simp add: handleClick_def)
  have b: "foldl (\<lambda>s' p. dispatch (fst p) s' (snd p)) (dispatch e s (Click el)) steps
              = dispatch e s (Click el)"
    if m: "img s = None \<or> Controller \<notin> set (modules s)"
  proof -
    have c1: "consistent (dispatch e s (Click el))"
      using assms(1) by (intro reachable_consistent reachable.step)
    have i1: "img (dispatch e s (Click el)) = Some el"
      using img_handleClick [OF c assms(2) m] by (simp add: dispatch_click [OF c])
    from reclick_steps [OF c1 i1 assms(2) assms(3)] show ?thesis .
  qed
  from a b show ?thesis by blast
qed

theorem C7_reclick_noop_witness:
  "handleClick env0 sel0 \<lparr>target = Some imgA, keyCode = None\<rparr> = Returned sel0
   \<and> foldl (\<lambda>s' p. dispatch (fst p) s' (snd p)) sel0
        [(env0, Click imgA), (env_gone, MsControlSelect imgA)] = sel0
   \<and> foldl (\<lambda>s' p. dispatch (fst p) s' (snd p)) (dispatch env0 (constructor opts0) (Click imgA))
        [(env0, Click imgA), (env_gone, MsControlSelect imgA)]
       = dispatch env0 (constructor opts0) (Click imgA)"
proof -
  have r: "reachable (constructor opts0)" by (rule reachable.init)
  have t: "image_target \<lparr>target = Some imgA, keyCode = None\<rparr> = Some imgA" by (rule image_target_imgA)
  have p: "\<forall>p \<in> set [(env0, Click imgA), (env_gone, MsControlSelect imgA)].
         snd p = Click imgA \<or> snd p = MsControlSelect imgA" by simp
  have i: "img sel0 = Some imgA" by (simp add: sel0_value)
  have i0: "img (constructor opts0) = None" by (simp add: constructor_value)
  from C7_reclick_noop [OF reachable_sel0 t p, of env0] i
  have a: "handleClick env0 sel0 \<lparr>target = Some imgA, keyCode = None\<rparr> = Returned sel0
     \<and> foldl (\<lambda>s' p. dispatch (fst p) s' (snd p)) sel0
        [(env0, Click imgA), (env_gone, MsControlSelect imgA)] = sel0" by blast
  from C7_reclick_noop [OF r t p, of env0] i0
  have b: "foldl (\<lambda>s' p. dispatch (fst p) s' (snd p)) (dispatch env0 (constructor opts0) (Click imgA))
        [(env0, Click imgA), (env_gone, MsControlSelect imgA)]
       = dispatch env0 (constructor opts0) (Click imgA)" by blast
  from a b show ?thesis by blast
qed

text \<open>
  C8. A click on image B while another image A is active: everything the controller does
  for A's teardown (the overlay removed, \<open>onDestroy\<close> on each of A's modules, the image
  reference cleared) comes before everything it does for B (the reference recorded, the
  host selection set, the overlay created, attached and positioned, the modules
  constructed and their \<open>onCreate\<close> and \<open>onUpdate\<close> hooks). The two parts of the log do not
  interleave; B's part is complete unless constructing a module or a hook call on the
  controller throws, and then it stops there. Where A's teardown itself throws (the
  controller is among A's modules), it stops there and nothing is done for B: A stays
  the active image.
\<close>

theorem C8_switch_order:
  assumes "reachable s" and "img s = Some a" and "a \<noteq> b"
    and "image_target \<lparr>target = Some b, keyCode = None\<rparr> = Some b"
    and "construct_all (moduleClasses s) = (ks, er)"
  shows "(Controller \<notin> set (modules s) \<longrightarrow>
          (\<exists>ov. overlay s = Some ov
            \<and> img (dispatch e s (Click b)) = Some b
            \<and> trace (dispatch e s (Click b)) =
                trace s
                @ ([RemoveChild (ov_id ov),
                    RemoveEventListener Document ''keyup'' CheckImage False,
                    RemoveEventListener Root ''input'' CheckImage False]
                   @ map OnDestroy (modules s) @ [SetImg None])
                @ ([SetImg (Some b),
                    SetSelection (getIndex e b) 0,
                    AddEventListener Document ''keyup'' CheckImage True,
                    AddEventListener Root ''input'' CheckImage True,
                    CreateElement (next_id s),
                    AssignStyle (next_id s) (overlayStyles s),
                    AppendChild (next_id s),
                    AssignStyle (next_id s) (overlay_box e b)]
                   @ map New ks
                   @ (if er = None
                      then map OnCreate (hooked (map new_module ks))
                           @ (if ObjectCtor \<in> set ks then []
                              else [AssignStyle (next_id s) (overlay_box e b)]
                                   @ map OnUpdate (map new_module ks) @ [PreventDefault])
                      else []))))
       \<and> (Controller \<in> set (modules s) \<longrightarrow>
            dispatch e s (Click b) =
              s\<lparr>overlay := None, children := [],
                trace := trace s @ removal_calls s @ map OnDestroy (hooked (modules s))\<rparr>)"
proof -
  from assms(1) have c: "consistent s" by (rule reachable_consistent)
  have d: "dispatch e s (Click b) = state_of (handleClick e s \<lparr>target = Some b, keyCode = None\<rparr>)"
    by (rule dispatch_click(1) [OF c])
  have p1: "\<exists>ov. overlay s = Some ov
            \<and> img (dispatch e s (Click b)) = Some b
            \<and> trace (dispatch e s (Click b)) =
                trace s
                @ ([RemoveChild (ov_id ov),
                    RemoveEventListener Document ''keyup'' CheckImage False,
                    RemoveEventListener Root ''input'' CheckImage False]
                   @ map OnDestroy (modules s) @ [SetImg None])
                @ ([SetImg (Some b),
                    SetSelection (getIndex e b) 0,
                    AddEventListener Document ''keyup'' CheckImage True,
                    AddEventListener Root ''input'' CheckImage True,
                    CreateElement (next_id s),
                    AssignStyle (next_id s) (overlayStyles s),
                    AppendChild (next_id s),
                    AssignStyle (next_id s) (overlay_box e b)]
                   @ map New ks
                   @ (if er = None
                      then map OnCreate (hooked (map new_module ks))
                           @ (if ObjectCtor \<in> set ks then []
                              else [AssignStyle (next_id s) (overlay_box e b)]
                                   @ map OnUpdate (map new_module ks) @ [PreventDefault])
                      else []))"
    if m: "Controller \<notin> set (modules s)"
  proof -
    from c assms(2) m obtain ov where o: "overlay s = Some ov" by (rule selected_overlay)
    from m have m': "img s = None \<or> Controller \<notin> set (modules s)" by simp
    have "img (dispatch e s (Click b)) = Some b"
      unfolding d by (rule img_handleClick [OF c assms(4) m'])
    with o switch_image [OF c assms(2) o m assms(4) assms(3) assms(5), of e] d show ?thesis
      by simp
  qed
  have p2: "dispatch e s (Click b) =
              s\<lparr>overlay := None, children := [],
                trace := trace s @ removal_calls s @ map OnDestroy (hooked (modules s))\<rparr>"
    if m: "Controller \<in> set (modules s)"
    unfolding d by (simp add: switch_image_fail [OF c assms(2) m assms(4) assms(3)])
  from p1 p2 show ?thesis by blast
qed

theorem C8_switch_order_witness:
  "img (dispatch env0 sel0 (Click imgB)) = Some imgB
   \<and> new_calls sel0 (dispatch env0 sel0 (Click imgB)) =
       [RemoveChild 0,
        RemoveEventListener Document ''keyup'' CheckImage False,
        RemoveEventListener Root ''input'' CheckImage False,
        OnDestroy (Instance DisplaySize), OnDestroy (Instance Resize),
        SetImg None,
        SetImg (Some imgB),
        SetSelection 2 0,
        AddEventListener Document ''keyup'' CheckImage True,
        AddEventListener Root ''input'' CheckImage True,
        CreateElement 1,
        AssignStyle 1 [(''position'', Css ''absolute'')],
        AppendChild 1,
        AssignStyle 1 [(''left'', Px 14), (''top'', Px 20), (''width'', Px 200), (''height'', Px 150)],
        New DisplaySize, New Resize,
        OnCreate (Instance DisplaySize), OnCreate (Instance Resize),
        AssignStyle 1 [(''left'', Px 14), (''top'', Px 20), (''width'', Px 200), (''height'', Px 150)],
        OnUpdate (Instance DisplaySize), OnUpdate (Instance Resize),
        PreventDefault]
   \<and> new_calls sel1 (dispatch env0 sel1 (Click imgB)) =
       [RemoveChild 0,
        RemoveEventListener Document ''keyup'' CheckImage False,
        RemoveEventListener Root ''input'' CheckImage False,
        SetImg None,
        SetImg (Some imgB),
        SetSelection 2 0,
        AddEventListener Document ''keyup'' CheckImage True,
        AddEventListener Root ''input'' CheckImage True,
        CreateElement 1,
        AssignStyle 1 [(''position'', Css ''absolute'')],
        AppendChild 1,
        AssignStyle 1 [(''left'', Px 14), (''top'', Px 20), (''width'', Px 200), (''height'', Px 150)],
        New Resize]
   \<and> img (dispatch env0 selC (Click imgB)) = Some imgA
   \<and> new_calls selC (dispatch env0 selC (Click imgB)) =
       [RemoveChild 0,
        RemoveEventListener Document ''keyup'' CheckImage False,
        RemoveEventListener Root ''input'' CheckImage False,
        OnDestroy (Instance Resize)]"
proof -
  have i: "img sel0 = Some imgA" and m: "Controller \<notin> set (modules sel0)"
    by (simp_all add: sel0_value)
  have i1: "img sel1 = Some imgA" and m1: "Controller \<notin> set (modules sel1)"
    by (simp_all add: sel1_value)
  have iC: "img selC = Some imgA" and mC: "Controller \<in> set (modules selC)"
    by (simp_all add: selC_value)
  have ne: "imgA \<noteq> imgB" by (simp add: imgA_def imgB_def)
  have k: "construct_all (moduleClasses sel0) = ([DisplaySize, Resize], None)"
    by (simp add: sel0_value)
  have k1: "construct_all (moduleClasses sel1) = ([Resize], Some TypeError)"
    by (simp add: sel1_value)
  have kC: "construct_all (moduleClasses selC) = ([Resize, ObjectCtor], None)"
    by (simp add: selC_value)
  have g: "getIndex env0 imgB = 2" by (simp add: env0_def imgB_def)
  have v: "next_id sel0 = 1" "overlayStyles sel0 = [(''position'', Css ''absolute'')]"
    "modules sel0 = [Instance DisplaySize, Instance Resize]"
    by (simp_all add: sel0_value)
  have v1: "next_id sel1 = 1" "overlayStyles sel1 = [(''position'', Css ''absolute'')]"
    "modules sel1 = []"
    by (simp_all add: sel1_value)
  from C8_switch_order [OF reachable_sel0 i ne image_target_imgB k, of env0] m
  obtain ov where o: "overlay sel0 = Some ov"
    and b: "img (dispatch env0 sel0 (Click imgB)) = Some imgB"
    and tr: "trace (dispatch env0 sel0 (Click imgB)) =
              trace sel0
              @ ([RemoveChild (ov_id ov),
                  RemoveEventListener Document ''keyup'' CheckImage False,
                  RemoveEventListener Root ''input'' CheckImage False]
                 @ map OnDestroy (modules sel0) @ [SetImg None])
              @ ([SetImg (Some imgB),
                  SetSelection (getIndex env0 imgB) 0,
                  AddEventListener Document ''keyup'' CheckImage True,
                  AddEventListener Root ''input'' CheckImage True,
                  CreateElement (next_id sel0),
                  AssignStyle (next_id sel0) (overlayStyles sel0),
                  AppendChild (next_id sel0),
                  AssignStyle (next_id sel0) (overlay_box env0 imgB)]
                 @ map New [DisplaySize, Resize]
                 @ (if (None :: error option) = None
                    then map OnCreate (hooked (map new_module [DisplaySize, Resize]))
                         @ (if ObjectCtor \<in> set [DisplaySize, Resize] then []
                            else [AssignStyle (next_id sel0) (overlay_box env0 imgB)]
                                 @ map OnUpdate (map new_module [DisplaySize, Resize])
                                 @ [PreventDefault])
                    else []))"
    by blast
  from C8_switch_order [OF reachable_sel1 i1 ne image_target_imgB k1, of env0] m1
  obtain ov1 where o1: "overlay sel1 = Some ov1"
    and tr1: "trace (dispatch env0 sel1 (Click imgB)) =
              trace sel1
              @ ([RemoveChild (ov_id ov1),
                  RemoveEventListener Document ''keyup'' CheckImage False,
                  RemoveEventListener Root ''input'' CheckImage False]
                 @ map OnDestroy (modules sel1) @ [SetImg None])
              @ ([SetImg (Some imgB),
                  SetSelection (getIndex env0 imgB) 0,
                  AddEventListener Document ''keyup'' CheckImage True,
                  AddEventListener Root ''input'' CheckImage True,
                  CreateElement (next_id sel1),
                  AssignStyle (next_id sel1) (overlayStyles sel1),
                  AppendChild (next_id sel1),
                  AssignStyle (next_id sel1) (overlay_box env0 imgB)]
                 @ map New [Resize]
                 @ (if Some TypeError = None
                    then map OnCreate (hooked (map new_module [Resize]))
                         @ (if ObjectCtor \<in> set [Resize] then []
                            else [AssignStyle (next_id sel1) (overlay_box env0 imgB)]
                                 @ map OnUpdate (map new_module [Resize]) @ [PreventDefault])
                    else []))"
    by blast
  from C8_switch_order [OF reachable_selC iC ne image_target_imgB kC, of env0] mC
  have dC: "dispatch env0 selC (Click imgB) =
              selC\<lparr>overlay := None, children := [],
                trace := trace selC @ removal_calls selC @ map OnDestroy (hooked (modules selC))\<rparr>"
    by blast
  from o have w: "ov_id ov = 0" by (auto simp add: sel0_value)
  from o1 have w1: "ov_id ov1 = 0" by (auto simp add: sel1_value)
  have p0: "new_calls sel0 (dispatch env0 sel0 (Click imgB)) =
       [RemoveChild 0,
        RemoveEventListener Document ''keyup'' CheckImage False,
        RemoveEventListener Root ''input'' CheckImage False,
        OnDestroy (Instance DisplaySize), OnDestroy (Instance Resize),
        SetImg None,
        SetImg (Some imgB),
        SetSelection 2 0,
        AddEventListener Document ''keyup'' CheckImage True,
        AddEventListener Root ''input'' CheckImage True,
        CreateElement 1,
        AssignStyle 1 [(''position'', Css ''absolute'')],
        AppendChild 1,
        AssignStyle 1 [(''left'', Px 14), (''top'', Px 20), (''width'', Px 200), (''height'', Px 150)],
        New DisplaySize, New Resize,
        OnCreate (Instance DisplaySize), OnCreate (Instance Resize),
        AssignStyle 1 [(''left'', Px 14), (''top'', Px 20), (''width'', Px 200), (''height'', Px 150)],
        OnUpdate (Instance DisplaySize), OnUpdate (Instance Resize),
        PreventDefault]"
    by (simp add: tr new_calls_def g v w overlay_box_env0 hooked_def)
  have p1: "new_calls sel1 (dispatch env0 sel1 (Click imgB)) =
       [RemoveChild 0,
        RemoveEventListener Document ''keyup'' CheckImage False,
        RemoveEventListener Root ''input'' CheckImage False,
        SetImg None,
        SetImg (Some imgB),
        SetSelection 2 0,
        AddEventListener Document ''keyup'' CheckImage True,
        AddEventListener Root ''input'' CheckImage True,
        CreateElement 1,
        AssignStyle 1 [(''position'', Css ''absolute'')],
        AppendChild 1,
        AssignStyle 1 [(''left'', Px 14), (''top'', Px 20), (''width'', Px 200), (''height'', Px 150)],
        New Resize]"
    by (simp add: tr1 new_calls_def g v1 w1 overlay_box_env0)
  have pC: "img (dispatch env0 selC (Click imgB)) = Some imgA
   \<and> new_calls selC (dispatch env0 selC (Click imgB)) =
       [RemoveChild 0,
        RemoveEventListener Document ''keyup'' CheckImage False,
        RemoveEventListener Root ''input'' CheckImage False,
        OnDestroy (Instance Resize)]"
    unfolding dC by (simp add: new_calls_def removal_calls_def hooked_def selC_value)
  from b p0 p1 pC show ?thesis by blast
qed

text \<open>
  C9. Module hooks run in the order of the configured list. When every entry of the list
  resolves to a module class (a built-in one or one supplied from outside) and every
  module to be replaced has its hooks, \<open>initializeModules\<close> returns, and after the
  \<open>onDestroy\<close> calls on the instances it replaces it constructs one instance per entry in
  list order, then calls \<open>onCreate\<close> on each in that order, then repositions, then calls
  \<open>onUpdate\<close> on each in that order. \<open>onUpdate\<close> repositions and calls \<open>onUpdate\<close> on each
  instance in list order; \<open>removeModules\<close> calls \<open>onDestroy\<close> on each in list order and
  empties the list.
\<close>

theorem C9_hook_order:
  assumes "map resolve (moduleClasses s) = map Some ks" and "ObjectCtor \<notin> set ks"
    and "Controller \<notin> set (modules s)"
  shows "(\<exists>s'. initializeModules e s = Returned s'
            \<and> modules s' = map Instance ks
            \<and> trace s' = trace s @ map OnDestroy (modules s)
                           @ map New ks
                           @ map OnCreate (map Instance ks)
                           @ reposition_calls e s
                           @ map OnUpdate (map Instance ks))
       \<and> (\<exists>s'. onUpdate e s = Returned s'
            \<and> trace s' = trace s @ reposition_calls e s @ map OnUpdate (modules s)
            \<and> modules s' = modules s)
       \<and> (\<exists>s'. removeModules s = Returned s'
            \<and> trace s' = trace s @ map OnDestroy (modules s)
            \<and> modules s' = [])"
proof -
  from assms(1) have k: "construct_all (moduleClasses s) = (ks, None)" by (simp add: construct_all_ok)
  have r: "reposition_calls e (s\<lparr>modules := map Instance ks,
             trace := trace s @ map OnDestroy (modules s) @ map New ks
                      @ map OnCreate (map Instance ks)\<rparr>) = reposition_calls e s"
    by (simp add: reposition_calls_def split: option.splits)
  have a: "\<exists>s'. initializeModules e s = Returned s'
            \<and> modules s' = map Instance ks
            \<and> trace s' = trace s @ map OnDestroy (modules s)
                           @ map New ks
                           @ map OnCreate (map Instance ks)
                           @ reposition_calls e s
                           @ map OnUpdate (map Instance ks)"
    using r by (simp add: initializeModules_ok [OF k assms(2,3)] onUpdate_ok emit_def
        trace_repositionElements)
  have b: "\<exists>s'. onUpdate e s = Returned s'
            \<and> trace s' = trace s @ reposition_calls e s @ map OnUpdate (modules s)
            \<and> modules s' = modules s"
    by (simp add: onUpdate_ok [OF assms(3)] emit_def trace_repositionElements)
  have d: "\<exists>s'. removeModules s = Returned s'
            \<and> trace s' = trace s @ map OnDestroy (modules s)
            \<and> modules s' = []"
    by (simp add: removeModules_ok [OF assms(3)])
  from a b d show ?thesis by blast
qed

theorem C9_hook_order_witness:
  "new_calls (sel0\<lparr>moduleClasses := [External 7, Named ''DisplaySize'']\<rparr>)
       (state_of (initializeModules env0 (sel0\<lparr>moduleClasses := [External 7, Named ''DisplaySize'']\<rparr>)))
     = [OnDestroy (Instance DisplaySize), OnDestroy (Instance Resize),
        New (Custom 7), New DisplaySize,
        OnCreate (Instance (Custom 7)), OnCreate (Instance DisplaySize),
        AssignStyle 0 [(''left'', Px 14), (''top'', Px 20), (''width'', Px 200), (''height'', Px 150)],
        OnUpdate (Instance (Custom 7)), OnUpdate (Instance DisplaySize)]
   \<and> modules (state_of (initializeModules env0 (sel0\<lparr>moduleClasses := [External 7, Named ''DisplaySize'']\<rparr>)))
     = [Instance (Custom 7), Instance DisplaySize]
   \<and> new_calls sel0 (state_of (onUpdate env0 sel0))
     = [AssignStyle 0 [(''left'', Px 14), (''top'', Px 20), (''width'', Px 200), (''height'', Px 150)],
        OnUpdate (Instance DisplaySize), OnUpdate (Instance Resize)]
   \<and> new_calls sel0 (state_of (removeModules sel0))
     = [OnDestroy (Instance DisplaySize), OnDestroy (Instance Resize)]"
proof -
  let ?s = "sel0\<lparr>moduleClasses := [External 7, Named ''DisplaySize'']\<rparr>"
  have h: "map resolve (moduleClasses ?s) = map Some [Custom 7, DisplaySize]" by simp
  have n: "ObjectCtor \<notin> set [Custom 7, DisplaySize]" by simp
  have h0: "map resolve (moduleClasses sel0) = map Some [DisplaySize, Resize]"
    by (simp add: sel0_value)
  have n0: "ObjectCtor \<notin> set [DisplaySize, Resize]" by simp
  have m: "modules sel0 = [Instance DisplaySize, Instance Resize]" by (simp add: sel0_value)
  have c: "Controller \<notin> set (modules ?s)" "Controller \<notin> set (modules sel0)" by (simp_all add: m)
  have r: "reposition_calls env0 ?s
     = [AssignStyle 0 [(''left'', Px 14), (''top'', Px 20), (''width'', Px 200), (''height'', Px 150)]]"
    "reposition_calls env0 sel0
     = [AssignStyle 0 [(''left'', Px 14), (''top'', Px 20), (''width'', Px 200), (''height'', Px 150)]]"
    by (simp_all add: reposition_calls_def sel0_value overlay_box_env0)
  from C9_hook_order [OF h n c(1), of env0] obtain s' where
    a: "initializeModules env0 ?s = Returned s'" "modules s' = map Instance [Custom 7, DisplaySize]"
       "trace s' = trace ?s @ map OnDestroy (modules ?s) @ map New [Custom 7, DisplaySize]
                   @ map OnCreate (map Instance [Custom 7, DisplaySize])
                   @ reposition_calls env0 ?s
                   @ map OnUpdate (map Instance [Custom 7, DisplaySize])"
    by blast
  from C9_hook_order [OF h0 n0 c(2), of env0] obtain s2 s3 where
    b: "onUpdate env0 sel0 = Returned s2"
       "trace s2 = trace sel0 @ reposition_calls env0 sel0 @ map OnUpdate (modules sel0)"
       "removeModules sel0 = Returned s3"
       "trace s3 = trace sel0 @ map OnDestroy (modules sel0)"
    by blast
  show ?thesis by (simp add: a b r m new_calls_def)
qed




end
